theory Spec2Isabelle
  imports Complex_Main "HOL-Library.Sublist"
begin

section \<open>Texts\<close>

text \<open>
  A Python \<open>str\<close> is a sequence of Unicode code points.  Where the program slices a text
  by position (the 1024-character sample of an upload) the text is a list of code points, one
  element per character.  Names, identifiers and messages, which the program only compares,
  concatenates and searches, are Isabelle strings.
\<close>

type_synonym codepoint = nat

definition py_str :: "string \<Rightarrow> codepoint list" where
  "py_str s = map of_char s"

definition semicolon :: codepoint where
  "semicolon = of_char CHR '';''"

definition comma :: codepoint where
  "comma = of_char CHR '',''"

definition tab :: codepoint where
  "tab = of_char CHR 0x09"

section \<open>Ingestion: delimiter detection\<close>

text \<open>
  Lines 56-63 of \<open>qc.py\<close>, inside \<open>onload\<close>:
  \<^verbatim>\<open>
  sample = content[:1024]
  if ";" in sample and sample.count(";") > sample.count(","):
      delimiter = ";"
  elif "\t" in sample and sample.count("\t") > sample.count(","):
      delimiter = "\t"
  else:
      delimiter = ","
  \<close>
\<close>

definition detect_delimiter :: "codepoint list \<Rightarrow> codepoint" where
  "detect_delimiter content =
     (let sample = take 1024 content in
      if semicolon \<in> set sample \<and> count_list sample semicolon > count_list sample comma
        then semicolon
      else if tab \<in> set sample \<and> count_list sample tab > count_list sample comma
        then tab
      else comma)"

section \<open>Errors\<close>

text \<open>
  Every \<open>raise\<close> the program can meet is a value.  \<open>ValueError\<close> is what the program
  itself raises (with its message) and what Python's \<open>float\<close> raises; \<open>KeyError\<close> is a
  column label that a table does not have; \<open>IndexError\<close> is numpy's refusal of a mask whose
  shape differs from the data's (the two shapes); \<open>AttributeError\<close> is the access to
  \<open>.value\<close> of a page element that does not exist (the element id); \<open>LibraryError\<close> is an
  exception raised inside a library the program calls (the CSV parser, the NetCDF decoder,
  the QC engine), with its text.
\<close>

datatype error =
    ValueError string
  | KeyError string
  | IndexError "nat list" "nat list"
  | AttributeError string
  | LibraryError string

definition quote :: string where
  "quote = [CHR 0x27]"

text \<open>The text of an exception, as \<open>f"{e}"\<close> prints it (for the shapes of an
  \<open>IndexError\<close>, which numpy appends in parentheses, only the fixed part).\<close>

fun error_text :: "error \<Rightarrow> string" where
  "error_text (ValueError m) = m"
| "error_text (KeyError k) = quote @ k @ quote"
| "error_text (IndexError c a) = ''Inconsistent shape between the condition and the input''"
| "error_text (AttributeError i) =
     quote @ ''NoneType'' @ quote @ '' object has no attribute '' @ quote @ ''value'' @ quote"
| "error_text (LibraryError m) = m"

definition and_then :: "error + 'a \<Rightarrow> ('a \<Rightarrow> error + 'b) \<Rightarrow> error + 'b" where
  "and_then m f = (case m of Inl e \<Rightarrow> Inl e | Inr x \<Rightarrow> f x)"

definition external :: "string + 'a \<Rightarrow> error + 'a" where
  "external r = (case r of Inl m \<Rightarrow> Inl (LibraryError m) | Inr x \<Rightarrow> Inr x)"

section \<open>Tables\<close>

text \<open>
  A cell of a table is a missing value (\<open>NaN\<close>), a finite number or a text.  A pandas
  \<open>DataFrame\<close> is its row labels (\<open>index\<close>) and its labelled columns, in order; every column
  is as long as the index (\<open>wf_frame\<close>).  A frame read from CSV carries the default index
  \<open>0, 1, ..., n-1\<close> (\<open>RangeIndex\<close>).
\<close>

datatype cell = NaN | Num real | Str string

record dataframe =
  index :: "cell list"
  columns :: "(string \<times> cell list) list"

definition wf_frame :: "dataframe \<Rightarrow> bool" where
  "wf_frame df = list_all (\<lambda>c. length (snd c) = length (index df)) (columns df)"

definition nrows :: "dataframe \<Rightarrow> nat" where
  "nrows df = length (index df)"

definition ncols :: "dataframe \<Rightarrow> nat" where
  "ncols df = length (columns df)"

definition labels :: "dataframe \<Rightarrow> string list" where
  "labels df = map fst (columns df)"

definition RangeIndex :: "nat \<Rightarrow> cell list" where
  "RangeIndex n = map (\<lambda>i. Num (of_nat i)) [0..<n]"

definition cell_at :: "cell list \<Rightarrow> nat \<Rightarrow> cell" where
  "cell_at vs i = (if i < length vs then vs ! i else NaN)"

definition row :: "dataframe \<Rightarrow> nat \<Rightarrow> cell list" where
  "row df i = map (\<lambda>c. cell_at (snd c) i) (columns df)"

definition rows :: "dataframe \<Rightarrow> cell list list" where
  "rows df = map (row df) [0..<nrows df]"

text \<open>
  \<open>df[label]\<close>: a label the frame does not have raises \<open>KeyError\<close>; a label of one
  column selects that column as a \<open>Series\<close> (its name, the frame's index, the values); a
  label that several columns carry selects the frame of these columns.
\<close>

datatype selection = Series string "cell list" "cell list" | Frame dataframe

definition getitem :: "dataframe \<Rightarrow> string \<Rightarrow> error + selection" where
  "getitem df label =
     (case filter (\<lambda>c. fst c = label) (columns df) of
        [] \<Rightarrow> Inl (KeyError label)
      | [c] \<Rightarrow> Inr (Series label (index df) (snd c))
      | c # c' # cs \<Rightarrow> Inr (Frame \<lparr>index = index df, columns = c # c' # cs\<rparr>))"

text \<open>A numpy array is its shape and its elements in row-major order.\<close>

record 'a ndarray =
  shape :: "nat list"
  data :: "'a list"

definition to_numpy :: "selection \<Rightarrow> cell ndarray" where
  "to_numpy sel =
     (case sel of
        Series l idx vs \<Rightarrow> \<lparr>shape = [length vs], data = vs\<rparr>
      | Frame f \<Rightarrow> \<lparr>shape = [nrows f, ncols f], data = concat (rows f)\<rparr>)"

text \<open>
  \<open>mask != k\<close> for an integer \<open>k\<close>, element by element: a missing value and a text differ
  from every integer, a number differs from \<open>k\<close> unless it is \<open>k\<close>.
\<close>

fun cell_ne :: "cell \<Rightarrow> int \<Rightarrow> bool" where
  "cell_ne NaN k = True"
| "cell_ne (Num r) k = (r \<noteq> of_int k)"
| "cell_ne (Str t) k = True"

definition ne :: "selection \<Rightarrow> int \<Rightarrow> bool ndarray" where
  "ne sel k = \<lparr>shape = shape (to_numpy sel), data = map (\<lambda>c. cell_ne c k) (data (to_numpy sel))\<rparr>"

text \<open>
  \<open>np.ma.masked_where(condition, a)\<close>: the elements of \<open>a\<close>, masked where the condition
  holds.  numpy compares the two shapes first
  (\<open>if cshape and cshape != ashape: raise IndexError\<close>).  \<open>tolist\<close> shows a masked element
  as \<open>None\<close>, \<open>count\<close> is the number of elements that are not masked.
\<close>

record masked_array =
  ma_shape :: "nat list"
  ma_data :: "cell list"
  ma_mask :: "bool list"

definition masked_where :: "bool ndarray \<Rightarrow> selection \<Rightarrow> error + masked_array" where
  "masked_where condition a =
     (let cshape = shape condition; ashape = shape (to_numpy a) in
      if cshape \<noteq> [] \<and> cshape \<noteq> ashape then Inl (IndexError cshape ashape)
      else Inr \<lparr>ma_shape = ashape, ma_data = data (to_numpy a), ma_mask = data condition\<rparr>)"

definition tolist :: "masked_array \<Rightarrow> cell option list" where
  "tolist m = map (\<lambda>(v, masked). if masked then None else Some v) (zip (ma_data m) (ma_mask m))"

definition count :: "masked_array \<Rightarrow> nat" where
  "count m = length (filter Not (ma_mask m))"

section \<open>The masker\<close>

text \<open>
  \<^verbatim>\<open>
  def make_mask(df, result, variable=..., qc_test=...):
      obs = df[variable]
      mask = result[qc_test]
      return {
          "qc_pass": np.ma.masked_where(mask != 1, obs),
          "qc_suspect": np.ma.masked_where(mask != 3, obs),
          "qc_fail": np.ma.masked_where(mask != 4, obs),
          "qc_notrun": np.ma.masked_where(mask != 2, obs),
      }
  \<close>
\<close>

record masks =
  qc_pass :: masked_array
  qc_suspect :: masked_array
  qc_fail :: masked_array
  qc_notrun :: masked_array

definition make_mask :: "dataframe \<Rightarrow> dataframe \<Rightarrow> string \<Rightarrow> string \<Rightarrow> error + masks" where
  "make_mask df result variable qc_test =
     and_then (getitem df variable) (\<lambda>obs.
     and_then (getitem result qc_test) (\<lambda>mask.
     and_then (masked_where (ne mask 1) obs) (\<lambda>p.
     and_then (masked_where (ne mask 3) obs) (\<lambda>s.
     and_then (masked_where (ne mask 4) obs) (\<lambda>f.
     and_then (masked_where (ne mask 2) obs) (\<lambda>n.
       Inr \<lparr>qc_pass = p, qc_suspect = s, qc_fail = f, qc_notrun = n\<rparr>))))))"

section \<open>The page, the session and the libraries\<close>

text \<open>
  The program keeps one global, \<open>uploaded_df\<close>, and reads and writes the page.  The session
  holds both: the dataset handle; \<open>document\<close>, the \<open>.value\<close> of every page element that
  has one, by element id (an id that is absent is an element \<open>getElementById\<close> does not
  find); the options of the three variable selectors; the file name shown; the message area
  (its alert class and its content).
\<close>

record session =
  uploaded_df :: "dataframe option"
  document :: "string \<rightharpoonup> string"
  select_options :: "string \<rightharpoonup> string list"
  filename_display :: string
  message :: "(string \<times> string) option"

text \<open>
  Python values as the configuration holds them: a \<open>float\<close>, a list, a \<open>dict\<close> (its items
  in order, keys distinct), and what else a JSON document can hold.
\<close>

datatype 'f pyval =
    Float 'f
  | PyList "'f pyval list"
  | Dict "(string \<times> 'f pyval) list"
  | PyStr string
  | PyBool bool
  | PyNone

text \<open>
  What the program calls and does not define is a parameter of the model: Python's \<open>float\<close>
  on a text (the number, or the message of its \<open>ValueError\<close>); the bundled document
  \<open>./qc_config.json\<close> as \<open>json.load\<close> reads it; the QC engine (\<open>QcConfig(config)\<close>, then
  \<open>qc.run(inp, tinp, zinp)\<close>, which answers, per module and per test, one array of flags);
  the alignment \<open>pd.concat(axis=1)\<close> performs when the two row indexes differ; pandas' CSV
  parser on a text and a delimiter; and the NetCDF decoder
  (\<open>xr.open_dataset(...).to_dataframe().reset_index()\<close>) on the bytes of a file.  A library
  call answers with its result or with the text of the exception it raises.
\<close>

record ('f, 'q) host =
  py_float :: "string \<Rightarrow> string + 'f"
  qc_config_json :: "string + 'f pyval"
  QcConfig :: "'f pyval \<Rightarrow> string + 'q"
  qc_run :: "'q \<Rightarrow> selection \<Rightarrow> selection \<Rightarrow> selection
               \<Rightarrow> string + (string \<times> (string \<times> cell list) list) list"
  align_outer :: "dataframe \<Rightarrow> selection \<Rightarrow> string + dataframe"
  read_csv :: "codepoint list \<Rightarrow> codepoint \<Rightarrow> string + dataframe"
  open_dataset :: "nat list \<Rightarrow> string + dataframe"


section \<open>The configuration builder\<close>

text \<open>
  The table \<open>test_params\<close> (lines 19-38): per test, the parameters in order, each with its
  name, its label and its default as \<open>str\<close> prints it (the \<open>type\<close> is \<open>number\<close> throughout).
\<close>

record param =
  p_name :: string
  p_label :: string
  p_default :: string

definition test_params :: "(string \<times> param list) list" where
  "test_params =
     [(''gross_range_test'',
        [\<lparr>p_name = ''fail_span_min'', p_label = ''Fail Span Min'', p_default = ''-10''\<rparr>,
         \<lparr>p_name = ''fail_span_max'', p_label = ''Fail Span Max'', p_default = ''10''\<rparr>,
         \<lparr>p_name = ''suspect_span_min'', p_label = ''Suspect Span Min'', p_default = ''-2''\<rparr>,
         \<lparr>p_name = ''suspect_span_max'', p_label = ''Suspect Span Max'', p_default = ''3''\<rparr>]),
      (''flat_line_test'',
        [\<lparr>p_name = ''tolerance'', p_label = ''Tolerance'', p_default = ''0.001''\<rparr>,
         \<lparr>p_name = ''suspect_threshold'', p_label = ''Suspect Threshold'', p_default = ''10800''\<rparr>,
         \<lparr>p_name = ''fail_threshold'', p_label = ''Fail Threshold'', p_default = ''21600''\<rparr>]),
      (''rate_of_change_test'',
        [\<lparr>p_name = ''threshold'', p_label = ''Threshold'', p_default = ''0.001''\<rparr>]),
      (''spike_test'',
        [\<lparr>p_name = ''suspect_threshold'', p_label = ''Suspect Threshold'', p_default = ''0.8''\<rparr>,
         \<lparr>p_name = ''fail_threshold'', p_label = ''Fail Threshold'', p_default = ''3''\<rparr>])]"

text \<open>
  \<^verbatim>\<open>
  def get_value_by_id(id):
      el = document.getElementById(id)
      if el is None:
          raise ValueError(f"Element with ID '{id}' not found.")
      return float(el.value)
  \<close>
\<close>

definition get_value_by_id :: "('f, 'q) host \<Rightarrow> session \<Rightarrow> string \<Rightarrow> error + 'f" where
  "get_value_by_id h s ident =
     (case document s ident of
        None \<Rightarrow> Inl (ValueError (''Element with ID '' @ quote @ ident @ quote @ '' not found.''))
      | Some v \<Rightarrow> (case py_float h v of Inl msg \<Rightarrow> Inl (ValueError msg) | Inr x \<Rightarrow> Inr x))"

text \<open>
  \<open>get_user_config\<close> (lines 130-161): one branch per built-in test, each reading its fields
  in the order written; any other identifier raises.  The result is
  \<open>{"qartod": {selected_test: config}}\<close>.
\<close>

definition get_user_config :: "('f, 'q) host \<Rightarrow> session \<Rightarrow> string \<Rightarrow> error + 'f pyval" where
  "get_user_config h s selected_test =
     and_then
       (if selected_test = ''gross_range_test'' then
          and_then (get_value_by_id h s ''fail_span_min'') (\<lambda>fail_min.
          and_then (get_value_by_id h s ''fail_span_max'') (\<lambda>fail_max.
          and_then (get_value_by_id h s ''suspect_span_min'') (\<lambda>suspect_min.
          and_then (get_value_by_id h s ''suspect_span_max'') (\<lambda>suspect_max.
            Inr (Dict [(''fail_span'', PyList [Float fail_min, Float fail_max]),
                       (''suspect_span'', PyList [Float suspect_min, Float suspect_max])])))))
        else if selected_test = ''flat_line_test'' then
          and_then (get_value_by_id h s ''tolerance'') (\<lambda>tolerance.
          and_then (get_value_by_id h s ''suspect_threshold'') (\<lambda>suspect_threshold.
          and_then (get_value_by_id h s ''fail_threshold'') (\<lambda>fail_threshold.
            Inr (Dict [(''tolerance'', Float tolerance),
                       (''suspect_threshold'', Float suspect_threshold),
                       (''fail_threshold'', Float fail_threshold)]))))
        else if selected_test = ''rate_of_change_test'' then
          and_then (get_value_by_id h s ''threshold'') (\<lambda>threshold.
            Inr (Dict [(''threshold'', Float threshold)]))
        else if selected_test = ''spike_test'' then
          and_then (get_value_by_id h s ''suspect_threshold'') (\<lambda>suspect_threshold.
          and_then (get_value_by_id h s ''fail_threshold'') (\<lambda>fail_threshold.
            Inr (Dict [(''suspect_threshold'', Float suspect_threshold),
                       (''fail_threshold'', Float fail_threshold)])))
        else Inl (ValueError (''Unknown test selected: '' @ selected_test)))
       (\<lambda>config. Inr (Dict [(''qartod'', Dict [(selected_test, config)])]))"

text \<open>
  The error of the first field, in reading order, whose read fails (if any does).
\<close>

definition first_failure :: "('f, 'q) host \<Rightarrow> session \<Rightarrow> string list \<Rightarrow> error option" where
  "first_failure h s idents =
     (case List.find (\<lambda>i. isl (get_value_by_id h s i)) idents of
        None \<Rightarrow> None
      | Some i \<Rightarrow> Some (projl (get_value_by_id h s i)))"

section \<open>The test runner\<close>

text \<open>
  \<open>pd.DataFrame(d, columns=d.keys())\<close> on a \<open>dict\<close> of arrays: the arrays become the
  columns, under the default index; arrays of different lengths are refused.
\<close>

definition DataFrame :: "(string \<times> cell list) list \<Rightarrow> error + dataframe" where
  "DataFrame d =
     (case d of
        [] \<Rightarrow> Inr \<lparr>index = [], columns = []\<rparr>
      | c # cs \<Rightarrow>
          if list_all (\<lambda>c'. length (snd c') = length (snd c)) cs
          then Inr \<lparr>index = RangeIndex (length (snd c)), columns = d\<rparr>
          else Inl (ValueError ''All arrays must be of the same length''))"

text \<open>
  \<open>pd.concat([df, test_results], axis=1)\<close>: when the two row indexes are equal the columns
  of the second are appended to those of the first, row by row; when they differ pandas
  aligns the rows on the union of the labels (the host's \<open>align_outer\<close>).
\<close>

definition selection_index :: "selection \<Rightarrow> cell list" where
  "selection_index sel = (case sel of Series l idx vs \<Rightarrow> idx | Frame f \<Rightarrow> index f)"

definition selection_columns :: "selection \<Rightarrow> (string \<times> cell list) list" where
  "selection_columns sel = (case sel of Series l idx vs \<Rightarrow> [(l, vs)] | Frame f \<Rightarrow> columns f)"

definition concat_axis1 :: "('f, 'q) host \<Rightarrow> dataframe \<Rightarrow> selection \<Rightarrow> error + dataframe" where
  "concat_axis1 h df sel =
     (if index df = selection_index sel
      then Inr \<lparr>index = index df, columns = columns df @ selection_columns sel\<rparr>
      else external (align_outer h df sel))"

text \<open>
  \<open>result.set_index(x_var)\<close>: the column becomes the row index and leaves the columns; the
  rows keep their order.  A label the frame does not have raises \<open>KeyError\<close>; a label that
  several columns carry selects a frame, which cannot be an index.
\<close>

definition set_index :: "dataframe \<Rightarrow> string \<Rightarrow> error + dataframe" where
  "set_index df key =
     (case filter (\<lambda>c. fst c = key) (columns df) of
        [] \<Rightarrow> Inl (KeyError (''None of ['' @ quote @ key @ quote @ ''] are in the columns''))
      | [c] \<Rightarrow> Inr \<lparr>index = snd c, columns = filter (\<lambda>c. fst c \<noteq> key) (columns df)\<rparr>
      | c # c' # cs \<Rightarrow> Inl (ValueError ''Index data must be 1-dimensional''))"

text \<open>
  \<^verbatim>\<open>
  def run_tests(df, variable, selected_test, x_var="timestamp", y_var="z", use_defaults=False):
      if use_defaults:
          ... qc_config = json.load(config_json)
      else:
          qc_config = get_user_config(selected_test)
      qc = QcConfig(qc_config)
      qc_results = qc.run(inp=df[variable], tinp=df[x_var], zinp=df[y_var])
      qc_result_pd = pd.DataFrame(qc_results["qartod"], columns=qc_results["qartod"].keys())
      test_results = qc_result_pd[selected_test]
      result = pd.concat([df, test_results], axis=1)
      return result.set_index(x_var)
  \<close>
\<close>

definition run_tests ::
  "('f, 'q) host \<Rightarrow> session \<Rightarrow> dataframe \<Rightarrow> string \<Rightarrow> string \<Rightarrow> string \<Rightarrow> string \<Rightarrow> bool
     \<Rightarrow> error + dataframe" where
  "run_tests h s df variable selected_test x_var y_var use_defaults =
     and_then (if use_defaults then external (qc_config_json h)
               else get_user_config h s selected_test) (\<lambda>qc_config.
     and_then (external (QcConfig h qc_config)) (\<lambda>qc.
     and_then (getitem df variable) (\<lambda>inp.
     and_then (getitem df x_var) (\<lambda>tinp.
     and_then (getitem df y_var) (\<lambda>zinp.
     and_then (external (qc_run h qc inp tinp zinp)) (\<lambda>qc_results.
     and_then (case map_of qc_results ''qartod'' of
                 None \<Rightarrow> Inl (KeyError ''qartod'')
               | Some qartod \<Rightarrow> DataFrame qartod) (\<lambda>qc_result_pd.
     and_then (getitem qc_result_pd selected_test) (\<lambda>test_results.
     and_then (concat_axis1 h df test_results) (\<lambda>result.
       set_index result x_var)))))))))"

text \<open>
  What the theorems below ask of the engine: whenever it answers, the arrays of the module
  \<open>qartod\<close> are keyed by distinct test names and each holds one flag per element of the
  input \<open>inp\<close>.
\<close>

definition rowwise_engine :: "('f, 'q) host \<Rightarrow> bool" where
  "rowwise_engine h \<longleftrightarrow>
     (\<forall>qc inp tinp zinp r qartod.
        qc_run h qc inp tinp zinp = Inr r \<longrightarrow> map_of r ''qartod'' = Some qartod \<longrightarrow>
        distinct (map fst qartod)
        \<and> list_all (\<lambda>c. length (snd c) = length (data (to_numpy inp))) qartod)"

section \<open>Download\<close>

text \<open>
  \<open>result.to_csv(index=False)\<close> writes one header line with the column labels and one line
  per row with the cells of the columns; the row index is left out.  The text layer of CSV
  (separators, quoting, the printing of numbers) is pandas' own and is represented by the
  table of fields the text encodes.
\<close>

record csv_table =
  header :: "string list"
  records :: "cell list list"

definition to_csv :: "dataframe \<Rightarrow> csv_table" where
  "to_csv df = \<lparr>header = labels df, records = rows df\<rparr>"

definition show_message :: "string \<Rightarrow> string \<Rightarrow> session \<Rightarrow> session" where
  "show_message msg_html alert_type s = s\<lparr>message := Some (''alert alert-'' @ alert_type, msg_html)\<rparr>"

definition element_value :: "session \<Rightarrow> string \<Rightarrow> error + string" where
  "element_value s ident =
     (case document s ident of None \<Rightarrow> Inl (AttributeError ident) | Some v \<Rightarrow> Inr v)"

text \<open>
  \<open>download_processed_data\<close> (lines 334-361): without a dataset it shows a warning;
  otherwise it reads the four selections from the page, runs the test on the uploaded
  dataset with the user's configuration and serialises the result.  The answer is the new
  session and the CSV offered for download (or the exception that escaped).
\<close>

definition download_processed_data ::
  "('f, 'q) host \<Rightarrow> session \<Rightarrow> session \<times> (error + csv_table) option" where
  "download_processed_data h s =
     (case uploaded_df s of
        None \<Rightarrow> (show_message ''No data to download. Please upload a file first.'' ''warning'' s, None)
      | Some df \<Rightarrow>
          (case and_then (element_value s ''select'') (\<lambda>qc_test.
                and_then (element_value s ''variableSelect'') (\<lambda>variable.
                and_then (element_value s ''xVariableSelect'') (\<lambda>x_var.
                and_then (element_value s ''yVariableSelect'') (\<lambda>y_var.
                and_then (run_tests h s df variable qc_test x_var y_var False) (\<lambda>result.
                  Inr (to_csv result)))))) of
             Inl e \<Rightarrow> (s, Some (Inl e))
           | Inr csv_content \<Rightarrow>
               (show_message ''File successfully downloaded.'' ''success'' s, Some (Inr csv_content))))"

text \<open>
  Reading a CSV back: the first record is the header, every further record is a row, and
  the rows get the default index.  (pandas renames a label that repeats; the number of
  columns is not affected.)  This is the reading any CSV parser gives the table above; the
  round trip of the specification is built from it.
\<close>

definition parse_csv_table :: "csv_table \<Rightarrow> dataframe" where
  "parse_csv_table t =
     \<lparr>index = RangeIndex (length (records t)),
      columns = map (\<lambda>j. (header t ! j, map (\<lambda>r. cell_at r j) (records t))) [0..<length (header t)]\<rparr>"

definition spec_round_trip ::
  "('f, 'q) host \<Rightarrow> session \<Rightarrow> dataframe \<Rightarrow> string \<Rightarrow> string \<Rightarrow> string \<Rightarrow> string \<Rightarrow> bool
     \<Rightarrow> error + dataframe" where
  "spec_round_trip h s df variable selected_test x_var y_var use_defaults =
     and_then (run_tests h s df variable selected_test x_var y_var use_defaults) (\<lambda>result.
     and_then (make_mask df result variable selected_test) (\<lambda>mask.
       Inr (parse_csv_table (to_csv result))))"

section \<open>Ingestion: the upload handler\<close>

text \<open>
  Python's \<open>str.lower\<close> and \<open>str.endswith\<close>.  \<open>lower\<close> maps the capitals \<open>A\<close> to \<open>Z\<close>; on
  other characters Python's mapping never yields \<open>.\<close>, \<open>c\<close>, \<open>s\<close>, \<open>v\<close> or \<open>n\<close>, the
  only characters the two suffix tests look for, so they are left as they are.
\<close>

definition lower_char :: "char \<Rightarrow> char" where
  "lower_char c =
     (case map_of (zip ''ABCDEFGHIJKLMNOPQRSTUVWXYZ'' ''abcdefghijklmnopqrstuvwxyz'') c of
        Some l \<Rightarrow> l
      | None \<Rightarrow> c)"

definition lower :: "string \<Rightarrow> string" where
  "lower name = map lower_char name"

definition endswith :: "string \<Rightarrow> string \<Rightarrow> bool" where
  "endswith name ext = suffix ext name"

text \<open>
  Two characters are the same letter when they are equal or one is the capital of the
  other; two names differ only in case when they are the same letter position by position.
\<close>

definition same_letter :: "char \<Rightarrow> char \<Rightarrow> bool" where
  "same_letter a b \<longleftrightarrow>
     a = b
     \<or> (a, b) \<in> set (zip ''ABCDEFGHIJKLMNOPQRSTUVWXYZ'' ''abcdefghijklmnopqrstuvwxyz'')
     \<or> (b, a) \<in> set (zip ''ABCDEFGHIJKLMNOPQRSTUVWXYZ'' ''abcdefghijklmnopqrstuvwxyz'')"

definition differ_in_case_only :: "string \<Rightarrow> string \<Rightarrow> bool" where
  "differ_in_case_only xs ys = list_all2 same_letter xs ys"

text \<open>
  An uploaded file: its name and its content as the two readers of the browser give it
  (\<open>readAsText\<close>, \<open>readAsArrayBuffer\<close>).  \<open>handle_file_upload\<close> reads a file whose lowered
  name ends in \<open>.nc\<close> as bytes and every other file as text (lines 96-99), so the \<open>.csv\<close>
  branch of \<open>onload\<close> meets a text and the \<open>.nc\<close> branch meets bytes.
\<close>

record upload =
  file_name :: string
  as_text :: "codepoint list"
  as_array_buffer :: "nat list"

text \<open>
  \<open>df.dropna(axis=0, how='all')\<close>: the rows in which every cell is missing are dropped; the
  rows that stay keep their labels.
\<close>

definition dropna_all :: "dataframe \<Rightarrow> dataframe" where
  "dropna_all df =
     (let keep = filter (\<lambda>i. list_ex (\<lambda>c. cell_at (snd c) i \<noteq> NaN) (columns df)) [0..<nrows df] in
      \<lparr>index = map (cell_at (index df)) keep,
       columns = map (\<lambda>c. (fst c, map (cell_at (snd c)) keep)) (columns df)\<rparr>)"

text \<open>
  The body of the \<open>try\<close> in \<open>onload\<close> up to the value assigned to \<open>uploaded_df\<close>
  (lines 54-80): the dispatch on the lowered file name and the parse.
\<close>

definition load_file :: "('f, 'q) host \<Rightarrow> upload \<Rightarrow> error + dataframe" where
  "load_file h file =
     (let filename = lower (file_name file) in
      if endswith filename ''.csv'' then
        (let content = as_text file;
             delimiter = detect_delimiter content
         in external (read_csv h content delimiter))
      else if endswith filename ''.nc'' then
        and_then (external (open_dataset h (as_array_buffer file))) (\<lambda>df. Inr (dropna_all df))
      else Inl (ValueError ''Unsupported file type. Please upload a .csv or .nc file.''))"

definition update_variable_options :: "session \<Rightarrow> session" where
  "update_variable_options s =
     (case uploaded_df s of
        None \<Rightarrow> s
      | Some df \<Rightarrow>
          s\<lparr>select_options := (select_options s)
               (''variableSelect'' \<mapsto> labels df,
                ''xVariableSelect'' \<mapsto> labels df,
                ''yVariableSelect'' \<mapsto> labels df)\<rparr>)"

text \<open>
  \<open>onload\<close> (lines 48-90): on success the dataset handle is assigned, the selectors are
  refilled, the file name is shown and success is reported; every exception is caught and
  reported.  The statements after the assignment only write to elements of the page.
\<close>

definition onload :: "('f, 'q) host \<Rightarrow> session \<Rightarrow> upload \<Rightarrow> session" where
  "onload h s file =
     (case load_file h file of
        Inr df \<Rightarrow>
          show_message (''File '' @ quote @ file_name file @ quote @ '' loaded successfully.'') ''success''
            ((update_variable_options (s\<lparr>uploaded_df := Some df\<rparr>))\<lparr>filename_display := file_name file\<rparr>)
      | Inl e \<Rightarrow> show_message (''Failed to load file: '' @ error_text e) ''danger'' s)"

definition handle_file_upload :: "('f, 'q) host \<Rightarrow> session \<Rightarrow> upload option \<Rightarrow> session" where
  "handle_file_upload h s selected =
     (case selected of None \<Rightarrow> s | Some file \<Rightarrow> onload h s file)"

section \<open>Ascending order of a time column\<close>

text \<open>
  The program never sorts.  The order the specification speaks of is stated here: numbers
  by value, texts by their characters, missing values last.
\<close>

fun cell_le :: "cell \<Rightarrow> cell \<Rightarrow> bool" where
  "cell_le c NaN = True"
| "cell_le (Num a) (Num b) = (a \<le> b)"
| "cell_le (Str a) (Str b) = (a = b \<or> lexordp (<) (map of_char a :: nat list) (map of_char b))"
| "cell_le c d = False"

definition ascending :: "cell list \<Rightarrow> bool" where
  "ascending cs = sorted_wrt cell_le cs"

section \<open>A concrete host, session and dataset\<close>

text \<open>
  An instance of the parameters, to run the model on concrete inputs.  \<open>example_float\<close> is
  Python's \<open>float\<close> on the numerals listed and on texts \<open>float\<close> refuses (it is applied to no
  other text); \<open>example_run\<close> is an engine that flags each value against the spans
  \<open>[-10, 10]\<close> and \<open>[-2, 3]\<close> under the name of the one configured test; the parser
  refuses an empty text, as pandas does, and reads the CSV text of the example dataset
  with the comma as delimiter (it is applied to no other text); the decoder refuses the
  two byte sequences it is applied to, an empty file and a file cut off after its
  signature.
\<close>

definition example_float :: "string \<Rightarrow> string + real" where
  "example_float v =
     (case map_of [(''-10'', -10), (''10'', 10), (''-2'', -2), (''3'', 3), (''0.001'', 1 / 1000),
                   (''0.8'', 4 / 5), (''10800'', 10800), (''21600'', 21600)] v of
        Some x \<Rightarrow> Inr x
      | None \<Rightarrow> Inl (''could not convert string to float: '' @ quote @ v @ quote))"

fun example_flag :: "cell \<Rightarrow> cell" where
  "example_flag (Num v) =
     (if v < -10 \<or> 10 < v then Num 4 else if v < -2 \<or> 3 < v then Num 3 else Num 1)"
| "example_flag c = Num 9"

definition example_run ::
  "real pyval \<Rightarrow> selection \<Rightarrow> selection \<Rightarrow> selection
     \<Rightarrow> string + (string \<times> (string \<times> cell list) list) list" where
  "example_run qc inp tinp zinp =
     (case qc of
        Dict [(modu, Dict [(test, config)])] \<Rightarrow>
          Inr [(modu, [(test, map example_flag (data (to_numpy inp)))])]
      | _ \<Rightarrow> Inl ''configuration not understood'')"

definition example_df :: dataframe where
  "example_df =
     \<lparr>index = [Num 0, Num 1, Num 2, Num 3],
      columns = [(''time'', [Num 40, Num 10, Num 30, Num 20]),
                 (''z'', [Num 0, Num 0, Num 0, Num 0]),
                 (''measurement'', [Num 1, Num 2, Num 11, Num 3])]\<rparr>"

definition example_result :: dataframe where
  "example_result =
     \<lparr>index = [Num 40, Num 10, Num 30, Num 20],
      columns = [(''z'', [Num 0, Num 0, Num 0, Num 0]),
                 (''measurement'', [Num 1, Num 2, Num 11, Num 3]),
                 (''gross_range_test'', [Num 1, Num 1, Num 4, Num 1])]\<rparr>"

definition example_csv_text :: "codepoint list" where
  "example_csv_text =
     py_str (''time,z,measurement'' @ [CHR 0x0A] @ ''40,0,1'' @ [CHR 0x0A] @ ''10,0,2'' @ [CHR 0x0A]
             @ ''30,0,11'' @ [CHR 0x0A] @ ''20,0,3'' @ [CHR 0x0A])"

definition example_host :: "(real, real pyval) host" where
  "example_host =
     \<lparr>py_float = example_float,
      qc_config_json = Inl ''the bundled configuration is not part of the example'',
      QcConfig = Inr,
      qc_run = example_run,
      align_outer = (\<lambda>df sel. Inl ''alignment is not part of the example''),
      read_csv = (\<lambda>content delimiter.
         if content = [] then Inl ''No columns to parse from file''
         else if content = example_csv_text \<and> delimiter = comma then Inr example_df
         else Inl ''this text is not part of the example''),
      open_dataset = (\<lambda>buffer. Inl ''the decoder could not read the file'')\<rparr>"

definition example_session :: session where
  "example_session =
     \<lparr>uploaded_df = None,
      document = [''fail_span_min'' \<mapsto> ''-10'', ''fail_span_max'' \<mapsto> ''10'',
                  ''suspect_span_min'' \<mapsto> ''-2'', ''suspect_span_max'' \<mapsto> ''3'',
                  ''threshold'' \<mapsto> ''abc''],
      select_options = Map.empty,
      filename_display = [],
      message = None\<rparr>"

text \<open>
  The session after the example dataset was uploaded and the selectors were set, and the
  table a parser reads back from the CSV of the example's annotated result.
\<close>

definition loaded_session :: session where
  "loaded_session =
     example_session
       \<lparr>uploaded_df := Some example_df,
        document := (document example_session)
          (''select'' \<mapsto> ''gross_range_test'', ''variableSelect'' \<mapsto> ''measurement'',
           ''xVariableSelect'' \<mapsto> ''time'', ''yVariableSelect'' \<mapsto> ''z'')\<rparr>"

definition example_parsed :: dataframe where
  "example_parsed =
     \<lparr>index = [Num 0, Num 1, Num 2, Num 3],
      columns = [(''z'', [Num 0, Num 0, Num 0, Num 0]),
                 (''measurement'', [Num 1, Num 2, Num 11, Num 3]),
                 (''gross_range_test'', [Num 1, Num 1, Num 4, Num 1])]\<rparr>"

text \<open>
  Uploads: an empty CSV; the CSV of the example dataset under a name in capitals and under
  a name in mixed case; a NetCDF file, cut off after its signature, under a name in mixed
  case; a text file; and a table as the decoder may answer it, its second row missing
  throughout.
\<close>

definition empty_csv :: upload where
  "empty_csv = \<lparr>file_name = ''empty.csv'', as_text = [], as_array_buffer = []\<rparr>"

definition upper_csv :: upload where
  "upper_csv = \<lparr>file_name = ''DATA.CSV'', as_text = example_csv_text, as_array_buffer = []\<rparr>"

definition mixed_csv :: upload where
  "mixed_csv = \<lparr>file_name = ''a.Csv'', as_text = example_csv_text, as_array_buffer = []\<rparr>"

definition mixed_nc :: upload where
  "mixed_nc = \<lparr>file_name = ''Tide.Nc'', as_text = [], as_array_buffer = [67, 68, 70, 1]\<rparr>"

definition notes_txt :: upload where
  "notes_txt = \<lparr>file_name = ''notes.txt'', as_text = py_str ''a,b'', as_array_buffer = []\<rparr>"

definition example_grid :: dataframe where
  "example_grid =
     \<lparr>index = [Num 0, Num 1, Num 2],
      columns = [(''time'', [Num 1, NaN, Num 3]),
                 (''height'', [Num 5, NaN, NaN])]\<rparr>"

section \<open>Properties of delimiter detection\<close>

lemma delimiters_distinct:
  "semicolon \<noteq> comma" "semicolon \<noteq> tab" "tab \<noteq> comma"
  by (simp_all add: semicolon_def comma_def tab_def)

lemma count_exceeds_member:
  "count_list xs c < count_list xs d \<Longrightarrow> d \<in> set xs"
  by (rule ccontr) simp

lemma detect_delimiter_counts:
  "detect_delimiter content =
     (if count_list (take 1024 content) comma < count_list (take 1024 content) semicolon
        then semicolon
      else if count_list (take 1024 content) comma < count_list (take 1024 content) tab
        then tab
      else comma)"
  by (auto simp: detect_delimiter_def Let_def dest: count_exceeds_member)

text \<open>
  Claim C4 (as amended).  Delimiter detection looks at the first 1024 characters of the
  upload only.  On that sample it answers semicolon exactly when there are strictly more
  semicolons than commas; otherwise tab exactly when there are strictly more tabs than
  commas; otherwise comma.  The sample \<open>a,b;c;d\<close> holds one comma and two semicolons, so
  the answer on it is semicolon, as on \<open>a;b;c,d\<close>; a tie such as \<open>a,b;c\<close> falls back
  to comma.
\<close>

theorem detect_delimiter_rule:
  "detect_delimiter (take 1024 content) = detect_delimiter content
   \<and> (detect_delimiter content = semicolon
        \<longleftrightarrow> count_list (take 1024 content) comma < count_list (take 1024 content) semicolon)
   \<and> (detect_delimiter content = tab
        \<longleftrightarrow> \<not> count_list (take 1024 content) comma < count_list (take 1024 content) semicolon
            \<and> count_list (take 1024 content) comma < count_list (take 1024 content) tab)
   \<and> (detect_delimiter content = comma
        \<longleftrightarrow> \<not> count_list (take 1024 content) comma < count_list (take 1024 content) semicolon
            \<and> \<not> count_list (take 1024 content) comma < count_list (take 1024 content) tab)
   \<and> count_list (py_str ''a,b;c;d'') comma = 1
   \<and> count_list (py_str ''a,b;c;d'') semicolon = 2
   \<and> detect_delimiter (py_str ''a,b;c;d'') = semicolon
   \<and> detect_delimiter (py_str ''a;b;c,d'') = semicolon
   \<and> detect_delimiter (py_str ''a,b;c'') = comma"
proof -
  have prefix_only: "detect_delimiter (take 1024 content) = detect_delimiter content"
    by (simp add: detect_delimiter_def)
  have semi: "detect_delimiter content = semicolon
        \<longleftrightarrow> count_list (take 1024 content) comma < count_list (take 1024 content) semicolon"
    using delimiters_distinct by (simp add: detect_delimiter_counts)
  have tb: "detect_delimiter content = tab
        \<longleftrightarrow> \<not> count_list (take 1024 content) comma < count_list (take 1024 content) semicolon
            \<and> count_list (take 1024 content) comma < count_list (take 1024 content) tab"
    using delimiters_distinct by (auto simp: detect_delimiter_counts)
  have cm: "detect_delimiter content = comma
        \<longleftrightarrow> \<not> count_list (take 1024 content) comma < count_list (take 1024 content) semicolon
            \<and> \<not> count_list (take 1024 content) comma < count_list (take 1024 content) tab"
    using delimiters_distinct by (auto simp: detect_delimiter_counts)
  have n1: "count_list (py_str ''a,b;c;d'') comma = 1"
    by (simp add: py_str_def semicolon_def comma_def)
  have n2: "count_list (py_str ''a,b;c;d'') semicolon = 2"
    by (simp add: py_str_def semicolon_def comma_def)
  have ex1: "detect_delimiter (py_str ''a,b;c;d'') = semicolon"
    by (simp add: detect_delimiter_def py_str_def semicolon_def comma_def tab_def)
  have ex2: "detect_delimiter (py_str ''a;b;c,d'') = semicolon"
    by (simp add: detect_delimiter_def py_str_def semicolon_def comma_def tab_def)
  have ex3: "detect_delimiter (py_str ''a,b;c'') = comma"
    by (simp add: detect_delimiter_def py_str_def semicolon_def comma_def tab_def)
  from prefix_only semi tb cm n1 n2 ex1 ex2 ex3 show ?thesis by blast
qed

text \<open>
  The claim as first stated expects comma on \<open>a,b;c;d\<close>; the program answers semicolon.
\<close>

theorem detect_delimiter_sample_counterexample:
  "detect_delimiter (py_str ''a,b;c;d'') \<noteq> comma"
  by (simp add: detect_delimiter_def py_str_def semicolon_def comma_def tab_def)

section \<open>Properties of the masker\<close>

lemma getitem_Series:
  assumes "getitem df label = Inr (Series l idx vs)"
  shows "l = label \<and> idx = index df \<and> (label, vs) \<in> set (columns df)"
proof -
  let ?cs = "filter (\<lambda>c. fst c = label) (columns df)"
  from assms obtain c where c: "?cs = [c]" and eq: "l = label" "idx = index df" "vs = snd c"
    by (auto simp: getitem_def split: list.splits)
  from c have "c \<in> set ?cs" by simp
  then have "c \<in> set (columns df)" "fst c = label" by auto
  with eq show ?thesis by (cases c) auto
qed

lemma wf_frame_column:
  "wf_frame df \<Longrightarrow> (l, vs) \<in> set (columns df) \<Longrightarrow> length vs = nrows df"
  by (auto simp: wf_frame_def nrows_def list_all_iff)

lemma masked_where_series:
  "length flags = length obs \<Longrightarrow>
   masked_where (ne (Series l idx flags) k) (Series l' idx' obs)
     = Inr \<lparr>ma_shape = [length obs], ma_data = obs, ma_mask = map (\<lambda>c. cell_ne c k) flags\<rparr>"
  by (simp add: masked_where_def ne_def to_numpy_def Let_def)

lemma tolist_nth:
  "i < length vs \<Longrightarrow> length ms = length vs \<Longrightarrow>
   tolist \<lparr>ma_shape = sh, ma_data = vs, ma_mask = ms\<rparr> ! i = (if ms ! i then None else Some (vs ! i))"
  by (simp add: tolist_def)

lemma length_tolist:
  "length ms = length vs \<Longrightarrow> length (tolist \<lparr>ma_shape = sh, ma_data = vs, ma_mask = ms\<rparr>) = length vs"
  by (simp add: tolist_def)

lemma count_codes:
  "list_all (\<lambda>c. c \<in> {Num 1, Num 2, Num 3, Num 4}) flags \<Longrightarrow>
   length (filter Not (map (\<lambda>c. cell_ne c 1) flags))
   + length (filter Not (map (\<lambda>c. cell_ne c 3) flags))
   + length (filter Not (map (\<lambda>c. cell_ne c 4) flags))
   + length (filter Not (map (\<lambda>c. cell_ne c 2) flags)) = length flags"
  by (induction flags) auto

lemma make_mask_series:
  assumes "getitem df variable = Inr (Series variable idx obs)"
    and "getitem result qc_test = Inr (Series qc_test idx' flags)"
    and "length flags = length obs"
  shows "make_mask df result variable qc_test =
     Inr \<lparr>qc_pass = \<lparr>ma_shape = [length obs], ma_data = obs, ma_mask = map (\<lambda>c. cell_ne c 1) flags\<rparr>,
          qc_suspect = \<lparr>ma_shape = [length obs], ma_data = obs, ma_mask = map (\<lambda>c. cell_ne c 3) flags\<rparr>,
          qc_fail = \<lparr>ma_shape = [length obs], ma_data = obs, ma_mask = map (\<lambda>c. cell_ne c 4) flags\<rparr>,
          qc_notrun = \<lparr>ma_shape = [length obs], ma_data = obs, ma_mask = map (\<lambda>c. cell_ne c 2) flags\<rparr>\<rparr>"
  using assms by (simp add: make_mask_def and_then_def masked_where_series)

text \<open>
  Claim C1.  Let the dataset and the annotated result be well-formed tables with the same
  number of rows, \<open>variable\<close> the label of one column of the dataset (the measurements
  \<open>obs\<close>) and \<open>qc_test\<close> the label of one column of the result (the flags).  Then
  \<open>make_mask\<close> returns four sequences, each as long as the dataset.  For every row whose flag
  is one of the codes 1 (pass), 2 (not run), 3 (suspect), 4 (fail), the bucket of that code
  holds the row's measurement and the three other buckets hold the absent marker.  When
  every row carries one of the four codes, the numbers of real values in the four buckets
  add up to the number of rows.
\<close>

theorem make_mask_partition:
  assumes wf: "wf_frame df" "wf_frame result"
    and same_rows: "nrows result = nrows df"
    and obs: "getitem df variable = Inr (Series variable idx obs)"
    and flags: "getitem result qc_test = Inr (Series qc_test idx' flags)"
  shows "\<exists>m. make_mask df result variable qc_test = Inr m
      \<and> length (tolist (qc_pass m)) = nrows df
      \<and> length (tolist (qc_notrun m)) = nrows df
      \<and> length (tolist (qc_suspect m)) = nrows df
      \<and> length (tolist (qc_fail m)) = nrows df
      \<and> (\<forall>i<nrows df. \<forall>c\<in>{1, 2, 3, 4}. flags ! i = Num (of_int c) \<longrightarrow>
            tolist (qc_pass m) ! i = (if c = 1 then Some (obs ! i) else None)
          \<and> tolist (qc_notrun m) ! i = (if c = 2 then Some (obs ! i) else None)
          \<and> tolist (qc_suspect m) ! i = (if c = 3 then Some (obs ! i) else None)
          \<and> tolist (qc_fail m) ! i = (if c = 4 then Some (obs ! i) else None))
      \<and> ((\<forall>i<nrows df. flags ! i \<in> {Num 1, Num 2, Num 3, Num 4}) \<longrightarrow>
            count (qc_pass m) + count (qc_notrun m) + count (qc_suspect m) + count (qc_fail m)
              = nrows df)"
proof -
  from getitem_Series [OF obs] wf(1) have lo: "length obs = nrows df"
    by (auto dest: wf_frame_column)
  from getitem_Series [OF flags] wf(2) same_rows have lf: "length flags = nrows df"
    by (auto dest: wf_frame_column)
  let ?m = "\<lambda>k. \<lparr>ma_shape = [length obs], ma_data = obs, ma_mask = map (\<lambda>c. cell_ne c k) flags\<rparr>"
  let ?M = "\<lparr>qc_pass = ?m 1, qc_suspect = ?m 3, qc_fail = ?m 4, qc_notrun = ?m 2\<rparr>"
  have run: "make_mask df result variable qc_test = Inr ?M"
    using make_mask_series [OF obs flags] lo lf by simp
  have len: "length (tolist (?m k)) = nrows df" for k
    using lo lf by (simp add: length_tolist)
  have at: "tolist (?m k) ! i = (if c = k then Some (obs ! i) else None)"
    if "i < nrows df" "flags ! i = Num (of_int c)" for i k c
    using that lo lf by (simp add: tolist_nth)
  have total: "count (?m 1) + count (?m 2) + count (?m 3) + count (?m 4) = nrows df"
    if all: "\<forall>i<nrows df. flags ! i \<in> {Num 1, Num 2, Num 3, Num 4}"
  proof -
    from all lf have "list_all (\<lambda>c. c \<in> {Num 1, Num 2, Num 3, Num 4}) flags"
      by (simp add: list_all_length)
    from count_codes [OF this] lf show ?thesis by (simp add: count_def)
  qed
  show ?thesis
  proof (intro exI conjI allI impI ballI)
    show "make_mask df result variable qc_test = Inr ?M" by (rule run)
  qed (simp_all add: len at total)
qed

text \<open>
  The theorem at the example: the dataset with the measurements \<open>1, 2, 11, 3\<close> and its
  annotated result with the flags \<open>1, 1, 4, 1\<close>.
\<close>

theorem make_mask_partition_witness:
  "wf_frame example_df \<and> wf_frame example_result \<and> nrows example_result = nrows example_df
   \<and> getitem example_df ''measurement''
        = Inr (Series ''measurement'' (index example_df) [Num 1, Num 2, Num 11, Num 3])
   \<and> getitem example_result ''gross_range_test''
        = Inr (Series ''gross_range_test'' (index example_result) [Num 1, Num 1, Num 4, Num 1])
   \<and> (\<exists>m. make_mask example_df example_result ''measurement'' ''gross_range_test'' = Inr m
      \<and> tolist (qc_pass m) ! 0 = Some (Num 1)
      \<and> tolist (qc_fail m) ! 0 = None
      \<and> tolist (qc_pass m) ! 2 = None
      \<and> tolist (qc_fail m) ! 2 = Some (Num 11)
      \<and> count (qc_pass m) + count (qc_notrun m) + count (qc_suspect m) + count (qc_fail m) = 4)"
proof -
  have h1: "wf_frame example_df" and h2: "wf_frame example_result"
    and h3: "nrows example_result = nrows example_df"
    by (simp_all add: wf_frame_def nrows_def example_df_def example_result_def)
  have h4: "getitem example_df ''measurement''
        = Inr (Series ''measurement'' (index example_df) [Num 1, Num 2, Num 11, Num 3])"
    by (simp add: getitem_def example_df_def)
  have h5: "getitem example_result ''gross_range_test''
        = Inr (Series ''gross_range_test'' (index example_result) [Num 1, Num 1, Num 4, Num 1])"
    by (simp add: getitem_def example_result_def)
  have n: "nrows example_df = 4"
    by (simp add: nrows_def example_df_def)
  from make_mask_partition [OF h1 h2 h3 h4 h5] obtain m where
    m: "make_mask example_df example_result ''measurement'' ''gross_range_test'' = Inr m"
    and rowwise: "\<forall>i<nrows example_df. \<forall>c\<in>{1, 2, 3, 4}.
          [Num 1, Num 1, Num 4, Num 1] ! i = Num (of_int c) \<longrightarrow>
            tolist (qc_pass m) ! i = (if c = 1 then Some ([Num 1, Num 2, Num 11, Num 3] ! i) else None)
          \<and> tolist (qc_notrun m) ! i = (if c = 2 then Some ([Num 1, Num 2, Num 11, Num 3] ! i) else None)
          \<and> tolist (qc_suspect m) ! i = (if c = 3 then Some ([Num 1, Num 2, Num 11, Num 3] ! i) else None)
          \<and> tolist (qc_fail m) ! i = (if c = 4 then Some ([Num 1, Num 2, Num 11, Num 3] ! i) else None)"
    and total: "(\<forall>i<nrows example_df. [Num 1, Num 1, Num 4, Num 1] ! i \<in> {Num 1, Num 2, Num 3, Num 4}) \<longrightarrow>
            count (qc_pass m) + count (qc_notrun m) + count (qc_suspect m) + count (qc_fail m)
              = nrows example_df"
    by blast
  have all: "\<forall>i<nrows example_df. [Num 1, Num 1, Num 4, Num 1] ! i \<in> {Num 1, Num 2, Num 3, Num 4}"
    unfolding n by (simp add: less_Suc_eq numeral_eq_Suc)
  from rowwise [rule_format, of 0 1] n
  have r0: "tolist (qc_pass m) ! 0 = Some (Num 1)" "tolist (qc_fail m) ! 0 = None"
    by simp_all
  from rowwise [rule_format, of 2 4] n
  have r2: "tolist (qc_pass m) ! 2 = None" "tolist (qc_fail m) ! 2 = Some (Num 11)"
    by simp_all
  from total all n
  have t: "count (qc_pass m) + count (qc_notrun m) + count (qc_suspect m) + count (qc_fail m) = 4"
    by simp
  from h1 h2 h3 h4 h5 m r0 r2 t show ?thesis by blast
qed




section \<open>Properties of the configuration builder\<close>

lemma and_then_Inl_iff:
  "and_then m f = Inl e \<longleftrightarrow> m = Inl e \<or> (\<exists>x. m = Inr x \<and> f x = Inl e)"
  by (cases m) (simp_all add: and_then_def)

lemma and_then_Inr_iff:
  "and_then m f = Inr y \<longleftrightarrow> (\<exists>x. m = Inr x \<and> f x = Inr y)"
  by (cases m) (simp_all add: and_then_def)

text \<open>
  Claim C6.  For every test identifier that is not one of the four built-in identifiers
  (the keys of \<open>test_params\<close>), \<open>get_user_config\<close> fails, whatever the page holds, with the
  \<open>ValueError\<close> whose message is \<open>Unknown test selected:\<close> followed by the identifier (the
  program's form of the specification's \<open>UnknownTestError\<close>).
\<close>

theorem get_user_config_unknown_test:
  assumes "selected_test \<notin> {''gross_range_test'', ''flat_line_test'', ''rate_of_change_test'', ''spike_test''}"
  shows "get_user_config h s selected_test = Inl (ValueError (''Unknown test selected: '' @ selected_test))
    \<and> selected_test \<notin> set (map fst test_params)"
  using assms by (simp add: get_user_config_def and_then_def test_params_def)

theorem get_user_config_unknown_test_witness:
  "''density_test'' \<notin> {''gross_range_test'', ''flat_line_test'', ''rate_of_change_test'', ''spike_test''}
   \<and> get_user_config example_host example_session ''density_test''
       = Inl (ValueError ''Unknown test selected: density_test'')"
proof -
  have h: "''density_test'' \<notin> {''gross_range_test'', ''flat_line_test'', ''rate_of_change_test'', ''spike_test''}"
    by simp
  from get_user_config_unknown_test [OF h, of example_host example_session] h
  show ?thesis by simp
qed

lemma get_value_by_id_missing:
  "document s ident = None \<Longrightarrow>
   get_value_by_id h s ident = Inl (ValueError (''Element with ID '' @ quote @ ident @ quote @ '' not found.''))"
  by (simp add: get_value_by_id_def)

lemma get_value_by_id_refused:
  "document s ident = Some v \<Longrightarrow> py_float h v = Inl msg \<Longrightarrow>
   get_value_by_id h s ident = Inl (ValueError msg)"
  by (simp add: get_value_by_id_def)

lemma message_names_ident:
  "sublist ident (''Element with ID '' @ quote @ ident @ quote @ '' not found.'')"
  by (metis sublist_appendI append.assoc)

lemma first_failure_Nil: "first_failure h s [] = None"
  by (simp add: first_failure_def)

lemma first_failure_Cons:
  "first_failure h s (i # is) =
     (case get_value_by_id h s i of Inl e \<Rightarrow> Some e | Inr x \<Rightarrow> first_failure h s is)"
  by (simp add: first_failure_def split: sum.splits)

lemma get_user_config_fails:
  assumes "map_of test_params selected_test = Some ps"
  shows "get_user_config h s selected_test = Inl e
     \<longleftrightarrow> first_failure h s (map p_name ps) = Some e"
proof -
  from assms consider
      "selected_test = ''gross_range_test''" | "selected_test = ''flat_line_test''"
    | "selected_test = ''rate_of_change_test''" | "selected_test = ''spike_test''"
    by (auto simp: test_params_def split: if_splits)
  then show ?thesis
  proof cases
    case 1
    with assms have ps: "map p_name ps = [''fail_span_min'', ''fail_span_max'', ''suspect_span_min'', ''suspect_span_max'']"
      by (auto simp: test_params_def)
    show ?thesis unfolding ps using 1
      by (simp add: get_user_config_def and_then_def first_failure_Cons first_failure_Nil split: sum.splits)
  next
    case 2
    with assms have ps: "map p_name ps = [''tolerance'', ''suspect_threshold'', ''fail_threshold'']"
      by (auto simp: test_params_def)
    show ?thesis unfolding ps using 2
      by (simp add: get_user_config_def and_then_def first_failure_Cons first_failure_Nil split: sum.splits)
  next
    case 3
    with assms have ps: "map p_name ps = [''threshold'']"
      by (auto simp: test_params_def)
    show ?thesis unfolding ps using 3
      by (simp add: get_user_config_def and_then_def first_failure_Cons first_failure_Nil split: sum.splits)
  next
    case 4
    with assms have ps: "map p_name ps = [''suspect_threshold'', ''fail_threshold'']"
      by (auto simp: test_params_def)
    show ?thesis unfolding ps using 4
      by (simp add: get_user_config_def and_then_def first_failure_Cons first_failure_Nil split: sum.splits)
  qed
qed

text \<open>
  Claim C7 (as amended).  For every form field the builder reads: when the element is
  missing, the read fails with a \<open>ValueError\<close> whose message names the field id; when the
  element is there and \<open>float\<close> refuses its text, the read fails with the \<open>ValueError\<close> that
  \<open>float\<close> raised, whose message is \<open>float\<close>'s own and is fixed by the text, not by the
  field id.  For a built-in test the builder fails exactly when one of the fields of its
  schema fails to read, with the error of the first such field in reading order.
\<close>

theorem get_value_by_id_errors:
  "(document s ident = None \<longrightarrow>
      (\<exists>msg. get_value_by_id h s ident = Inl (ValueError msg) \<and> sublist ident msg))
   \<and> (document s ident = Some v \<and> py_float h v = Inl msg' \<longrightarrow>
        get_value_by_id h s ident = Inl (ValueError msg')
      \<and> (document s ident' = Some v \<longrightarrow> get_value_by_id h s ident' = Inl (ValueError msg')))
   \<and> (map_of test_params selected_test = Some ps \<longrightarrow>
        (get_user_config h s selected_test = Inl e
           \<longleftrightarrow> first_failure h s (map p_name ps) = Some e))"
  using get_value_by_id_missing [of s ident h] message_names_ident [of ident]
    get_value_by_id_refused [of s ident v h msg'] get_value_by_id_refused [of s ident' v h msg']
    get_user_config_fails [of selected_test ps h s e]
  by simp

theorem get_value_by_id_errors_witness:
  "document example_session ''tolerance'' = None
   \<and> (\<exists>msg. get_value_by_id example_host example_session ''tolerance'' = Inl (ValueError msg)
         \<and> sublist ''tolerance'' msg)
   \<and> document example_session ''threshold'' = Some ''abc''
   \<and> py_float example_host ''abc''
        = Inl (''could not convert string to float: '' @ quote @ ''abc'' @ quote)
   \<and> get_value_by_id example_host example_session ''threshold''
        = Inl (ValueError (''could not convert string to float: '' @ quote @ ''abc'' @ quote))
   \<and> map_of test_params ''rate_of_change_test''
        = Some [\<lparr>p_name = ''threshold'', p_label = ''Threshold'', p_default = ''0.001''\<rparr>]
   \<and> first_failure example_host example_session [''threshold'']
        = Some (ValueError (''could not convert string to float: '' @ quote @ ''abc'' @ quote))
   \<and> get_user_config example_host example_session ''rate_of_change_test''
        = Inl (ValueError (''could not convert string to float: '' @ quote @ ''abc'' @ quote))"
proof -
  let ?msg = "''could not convert string to float: '' @ quote @ ''abc'' @ quote"
  let ?ps = "[\<lparr>p_name = ''threshold'', p_label = ''Threshold'', p_default = ''0.001''\<rparr>]"
  have a: "document example_session ''tolerance'' = None"
    by (simp add: example_session_def)
  have b: "document example_session ''threshold'' = Some ''abc''"
    by (simp add: example_session_def)
  have c: "py_float example_host ''abc'' = Inl ?msg"
    by (simp add: example_host_def example_float_def)
  have d: "map_of test_params ''rate_of_change_test'' = Some ?ps"
    by (simp add: test_params_def)
  from get_value_by_id_errors [where s = example_session and h = example_host
      and ident = "''tolerance''"] a
  have 1: "\<exists>msg. get_value_by_id example_host example_session ''tolerance'' = Inl (ValueError msg)
         \<and> sublist ''tolerance'' msg"
    by blast
  from get_value_by_id_errors [where s = example_session and h = example_host
      and ident = "''threshold''" and v = "''abc''" and msg' = ?msg] b c
  have 2: "get_value_by_id example_host example_session ''threshold'' = Inl (ValueError ?msg)"
    by blast
  have 3: "first_failure example_host example_session [''threshold''] = Some (ValueError ?msg)"
    by (simp add: first_failure_Cons first_failure_Nil 2)
  from get_value_by_id_errors [where s = example_session and h = example_host
      and selected_test = "''rate_of_change_test''" and ps = ?ps and e = "ValueError ?msg"] d 3
  have 4: "get_user_config example_host example_session ''rate_of_change_test''
        = Inl (ValueError ?msg)"
    by simp
  from a 1 b c 2 d 3 4 show ?thesis by blast
qed

text \<open>
  The claim as first stated asks that the message name the field id also when the text is
  not a number.  With \<open>abc\<close> in the field \<open>threshold\<close> the builder fails with \<open>float\<close>'s
  message, in which \<open>threshold\<close> does not occur.
\<close>

theorem get_value_by_id_names_field_counterexample:
  "document example_session ''threshold'' = Some ''abc''
   \<and> py_float example_host ''abc''
        = Inl (''could not convert string to float: '' @ quote @ ''abc'' @ quote)
   \<and> get_value_by_id example_host example_session ''threshold''
        = Inl (ValueError (''could not convert string to float: '' @ quote @ ''abc'' @ quote))
   \<and> get_user_config example_host example_session ''rate_of_change_test''
        = Inl (ValueError (''could not convert string to float: '' @ quote @ ''abc'' @ quote))
   \<and> \<not> sublist ''threshold'' (''could not convert string to float: '' @ quote @ ''abc'' @ quote)"
proof -
  have "\<not> sublist ''threshold'' (''could not convert string to float: '' @ quote @ ''abc'' @ quote)"
    by (simp add: quote_def sublist_Cons_right prefix_Cons)
  moreover have "get_value_by_id example_host example_session ''threshold''
        = Inl (ValueError (''could not convert string to float: '' @ quote @ ''abc'' @ quote))"
    by (simp add: get_value_by_id_def example_host_def example_session_def example_float_def)
  moreover have "get_user_config example_host example_session ''rate_of_change_test''
        = Inl (ValueError (''could not convert string to float: '' @ quote @ ''abc'' @ quote))"
    by (simp add: get_user_config_def and_then_def get_value_by_id_def example_host_def
        example_session_def example_float_def)
  ultimately show ?thesis
    by (simp add: example_host_def example_session_def example_float_def)
qed


section \<open>Properties of the test runner\<close>

lemma external_Inr_iff: "external r = Inr x \<longleftrightarrow> r = Inr x"
  by (cases r) (simp_all add: external_def)

lemma filter_key_distinct:
  "distinct (map fst cs) \<Longrightarrow> length (filter (\<lambda>c. fst c = l) cs) \<le> 1"
proof (induction cs)
  case Nil
  then show ?case by simp
next
  case (Cons c cs)
  show ?case
  proof (cases "fst c = l")
    case True
    from Cons.prems True have notin: "l \<notin> fst ` set cs" by simp
    have "filter (\<lambda>c. fst c = l) cs = []"
      unfolding filter_empty_conv
    proof (intro ballI notI)
      fix x assume "x \<in> set cs" "fst x = l"
      then have "l \<in> fst ` set cs" by (metis imageI)
      with notin show False by simp
    qed
    with True show ?thesis by simp
  next
    case False
    with Cons show ?thesis by simp
  qed
qed

lemma filter_singleton_mem:
  assumes "filter P xs = [x]"
  shows "x \<in> set xs \<and> P x"
proof -
  from assms have "x \<in> set (filter P xs)" by simp
  then show ?thesis by simp
qed

lemma getitem_distinct:
  assumes d: "distinct (map fst (columns df))" and g: "getitem df l = Inr sel"
  shows "\<exists>vs. sel = Series l (index df) vs \<and> filter (\<lambda>c. fst c = l) (columns df) = [(l, vs)]"
proof (cases "filter (\<lambda>c. fst c = l) (columns df)")
  case Nil
  with g show ?thesis by (simp add: getitem_def)
next
  case (Cons c cs)
  with filter_key_distinct [OF d, of l] have one: "filter (\<lambda>c. fst c = l) (columns df) = [c]"
    by simp
  from filter_singleton_mem [OF one] have "c = (l, snd c)" by (cases c) simp
  with one g show ?thesis by (auto simp: getitem_def)
qed

lemma DataFrame_Inr:
  assumes "DataFrame d = Inr f" and "d \<noteq> []"
    and "list_all (\<lambda>c. length (snd c) = n) d"
  shows "f = \<lparr>index = RangeIndex n, columns = d\<rparr>"
  using assms by (cases d) (auto simp: DataFrame_def split: if_splits)

lemma length_RangeIndex: "length (RangeIndex n) = n"
  by (simp add: RangeIndex_def)

lemma set_index_Inr:
  assumes "set_index f key = Inr r"
  shows "\<exists>c. filter (\<lambda>c. fst c = key) (columns f) = [c]
     \<and> r = \<lparr>index = snd c, columns = filter (\<lambda>c. fst c \<noteq> key) (columns f)\<rparr>"
  using assms by (auto simp: set_index_def split: list.splits)

lemma length_filter_out_one:
  assumes "filter P xs = [x]"
  shows "Suc (length (filter (\<lambda>y. \<not> P y) xs)) = length xs"
  using sum_length_filter_compl [of P xs] assms by simp

lemma run_tests_trace:
  assumes run: "run_tests h s df variable selected_test x_var y_var use_defaults = Inr result"
    and wf: "wf_frame df"
    and dist: "distinct (labels df)"
    and default_index: "index df = RangeIndex (nrows df)"
    and engine: "rowwise_engine h"
  shows "\<exists>obs time depth qc_config qc answer qartod flags.
        (if use_defaults then external (qc_config_json h) else get_user_config h s selected_test)
          = Inr qc_config
      \<and> QcConfig h qc_config = Inr qc
      \<and> getitem df variable = Inr (Series variable (index df) obs)
      \<and> getitem df x_var = Inr (Series x_var (index df) time)
      \<and> getitem df y_var = Inr (Series y_var (index df) depth)
      \<and> qc_run h qc (Series variable (index df) obs) (Series x_var (index df) time)
            (Series y_var (index df) depth) = Inr answer
      \<and> map_of answer ''qartod'' = Some qartod
      \<and> map_of qartod selected_test = Some flags
      \<and> length flags = nrows df
      \<and> index result = time
      \<and> columns result = filter (\<lambda>c. fst c \<noteq> x_var) (columns df) @ [(selected_test, flags)]
      \<and> selected_test \<noteq> x_var
      \<and> wf_frame result \<and> nrows result = nrows df \<and> ncols result = ncols df"
proof -
  from dist have d: "distinct (map fst (columns df))" by (simp add: labels_def)
  from run obtain qc_config qc inp tinp zinp qc_results qc_result_pd test_results joined where
        cfg: "(if use_defaults then external (qc_config_json h) else get_user_config h s selected_test)
          = Inr qc_config"
    and mk: "QcConfig h qc_config = Inr qc"
    and inp: "getitem df variable = Inr inp"
    and tinp: "getitem df x_var = Inr tinp"
    and zinp: "getitem df y_var = Inr zinp"
    and eng: "qc_run h qc inp tinp zinp = Inr qc_results"
    and frame: "(case map_of qc_results ''qartod'' of
                  None \<Rightarrow> Inl (KeyError ''qartod'') | Some qartod \<Rightarrow> DataFrame qartod) = Inr qc_result_pd"
    and sel: "getitem qc_result_pd selected_test = Inr test_results"
    and joined: "concat_axis1 h df test_results = Inr joined"
    and res: "set_index joined x_var = Inr result"
    unfolding run_tests_def and_then_Inr_iff external_Inr_iff by blast
  from getitem_distinct [OF d inp] obtain vs where
    vs: "inp = Series variable (index df) vs" "filter (\<lambda>c. fst c = variable) (columns df) = [(variable, vs)]"
    by blast
  from filter_singleton_mem [OF vs(2)] wf have lvs: "length vs = nrows df"
    by (auto dest: wf_frame_column)
  from getitem_distinct [OF d tinp] obtain time where
    time: "tinp = Series x_var (index df) time" "filter (\<lambda>c. fst c = x_var) (columns df) = [(x_var, time)]"
    by blast
  from filter_singleton_mem [OF time(2)] wf have ltime: "length time = nrows df"
    by (auto dest: wf_frame_column)
  from getitem_distinct [OF d zinp] obtain depth where
    depth: "zinp = Series y_var (index df) depth"
    by blast
  from frame obtain qartod where q: "map_of qc_results ''qartod'' = Some qartod"
    and df_q: "DataFrame qartod = Inr qc_result_pd"
    by (auto split: option.splits)
  from engine eng q vs(1) lvs have qd: "distinct (map fst qartod)"
    and ql: "list_all (\<lambda>c. length (snd c) = nrows df) qartod"
    unfolding rowwise_engine_def by (fastforce simp: to_numpy_def)+
  have "qartod \<noteq> []"
  proof
    assume "qartod = []"
    with df_q have "columns qc_result_pd = []" by (auto simp: DataFrame_def)
    with sel show False by (simp add: getitem_def)
  qed
  from DataFrame_Inr [OF df_q this ql]
  have pd: "qc_result_pd = \<lparr>index = RangeIndex (nrows df), columns = qartod\<rparr>" .
  from qd pd have "distinct (map fst (columns qc_result_pd))" by simp
  from getitem_distinct [OF this sel] pd obtain flags where
    flags: "test_results = Series selected_test (RangeIndex (nrows df)) flags"
      "filter (\<lambda>c. fst c = selected_test) qartod = [(selected_test, flags)]"
    by auto
  from filter_singleton_mem [OF flags(2)] ql have lflags: "length flags = nrows df"
    by (auto simp: list_all_iff)
  from joined flags(1) default_index
  have j: "joined = \<lparr>index = index df, columns = columns df @ [(selected_test, flags)]\<rparr>"
    by (simp add: concat_axis1_def selection_index_def selection_columns_def)
  from set_index_Inr [OF res] obtain c where
    c: "filter (\<lambda>c. fst c = x_var) (columns joined) = [c]"
    and r: "result = \<lparr>index = snd c, columns = filter (\<lambda>c. fst c \<noteq> x_var) (columns joined)\<rparr>"
    by blast
  from c j time(2) have ne: "selected_test \<noteq> x_var" and c_eq: "c = (x_var, time)"
    by (auto split: if_splits)
  from r j ne c_eq have idx: "index result = time"
    and cols: "columns result = filter (\<lambda>c. fst c \<noteq> x_var) (columns df) @ [(selected_test, flags)]"
    by simp_all
  have n: "nrows result = nrows df"
    using idx ltime by (simp add: nrows_def)
  have w: "wf_frame result"
    using wf idx cols ltime lflags by (auto simp: wf_frame_def nrows_def list_all_iff)
  have nc: "ncols result = ncols df"
    using cols length_filter_out_one [OF time(2)] by (simp add: ncols_def)
  from filter_singleton_mem [OF flags(2)] qd have look: "map_of qartod selected_test = Some flags"
    by simp
  from cfg mk inp [unfolded vs(1)] tinp [unfolded time(1)] zinp [unfolded depth]
    eng [unfolded vs(1) time(1) depth] q look lflags idx cols ne w n nc
  show ?thesis by blast
qed

lemma run_tests_joined:
  assumes run: "run_tests h s df variable selected_test x_var y_var use_defaults = Inr result"
    and wf: "wf_frame df"
    and dist: "distinct (labels df)"
    and default_index: "index df = RangeIndex (nrows df)"
    and engine: "rowwise_engine h"
  shows "\<exists>time flags.
        getitem df x_var = Inr (Series x_var (index df) time)
      \<and> length flags = nrows df
      \<and> index result = time
      \<and> columns result = filter (\<lambda>c. fst c \<noteq> x_var) (columns df) @ [(selected_test, flags)]
      \<and> selected_test \<noteq> x_var
      \<and> wf_frame result \<and> nrows result = nrows df \<and> ncols result = ncols df"
  using run_tests_trace [OF assms] by blast

lemma example_engine_rowwise: "rowwise_engine example_host"
  unfolding rowwise_engine_def
  by (auto simp: example_host_def example_run_def
      split: pyval.splits list.splits prod.splits if_splits)

lemmas example_defs = run_tests_def get_user_config_def get_value_by_id_def and_then_def external_def
  example_host_def example_session_def example_df_def example_float_def example_run_def
  getitem_def DataFrame_def concat_axis1_def set_index_def to_numpy_def RangeIndex_def
  selection_index_def selection_columns_def

lemma example_run_tests:
  "run_tests example_host example_session example_df ''measurement'' ''gross_range_test'' ''time'' ''z'' False
     = Inr example_result"
  by (simp add: example_defs example_result_def)

text \<open>
  Claim C2 (as amended).  Let the dataset be a well-formed table with distinct column labels
  and the default row index, and let the engine answer one flag per row.  Whenever
  \<open>run_tests\<close> returns, the configuration was built (or loaded), the engine was run on the
  measurement, time and secondary columns of the dataset, and the result is the original
  dataset with the flags the engine answered for the selected test joined on, row by row,
  as one new, last column, and with the time column moved from the columns into the row
  index.  The rows keep the order of the input: nothing is sorted, and the result is in
  ascending time order exactly when the time column of the input is.
\<close>

theorem run_tests_result:
  assumes run: "run_tests h s df variable selected_test x_var y_var use_defaults = Inr result"
    and wf: "wf_frame df"
    and dist: "distinct (labels df)"
    and default_index: "index df = RangeIndex (nrows df)"
    and engine: "rowwise_engine h"
  shows "\<exists>obs time depth qc_config qc answer qartod flags.
        (if use_defaults then external (qc_config_json h) else get_user_config h s selected_test)
          = Inr qc_config
      \<and> QcConfig h qc_config = Inr qc
      \<and> getitem df variable = Inr (Series variable (index df) obs)
      \<and> getitem df x_var = Inr (Series x_var (index df) time)
      \<and> getitem df y_var = Inr (Series y_var (index df) depth)
      \<and> qc_run h qc (Series variable (index df) obs) (Series x_var (index df) time)
            (Series y_var (index df) depth) = Inr answer
      \<and> map_of answer ''qartod'' = Some qartod
      \<and> map_of qartod selected_test = Some flags
      \<and> length flags = nrows df
      \<and> index result = time
      \<and> columns result = filter (\<lambda>c. fst c \<noteq> x_var) (columns df) @ [(selected_test, flags)]
      \<and> x_var \<notin> set (labels result)
      \<and> wf_frame result \<and> nrows result = nrows df
      \<and> (ascending (index result) \<longleftrightarrow> ascending time)"
proof -
  from run_tests_trace [OF run wf dist default_index engine]
  obtain obs time depth qc_config qc answer qartod flags where
    *: "(if use_defaults then external (qc_config_json h) else get_user_config h s selected_test)
          = Inr qc_config"
      "QcConfig h qc_config = Inr qc"
      "getitem df variable = Inr (Series variable (index df) obs)"
      "getitem df x_var = Inr (Series x_var (index df) time)"
      "getitem df y_var = Inr (Series y_var (index df) depth)"
      "qc_run h qc (Series variable (index df) obs) (Series x_var (index df) time)
            (Series y_var (index df) depth) = Inr answer"
      "map_of answer ''qartod'' = Some qartod"
      "map_of qartod selected_test = Some flags"
      "length flags = nrows df"
      "index result = time"
      "wf_frame result" "nrows result = nrows df"
    and cols: "columns result = filter (\<lambda>c. fst c \<noteq> x_var) (columns df) @ [(selected_test, flags)]"
    and ne: "selected_test \<noteq> x_var"
    by blast
  from cols ne have "x_var \<notin> set (labels result)"
    by (auto simp: labels_def)
  moreover from *(10) have "ascending (index result) \<longleftrightarrow> ascending time" by simp
  ultimately show ?thesis using * cols by blast
qed

theorem run_tests_result_witness:
  "run_tests example_host example_session example_df ''measurement'' ''gross_range_test'' ''time'' ''z'' False
     = Inr example_result
   \<and> wf_frame example_df \<and> distinct (labels example_df)
   \<and> index example_df = RangeIndex (nrows example_df)
   \<and> rowwise_engine example_host
   \<and> (\<exists>obs time depth qc_config qc answer qartod flags.
        get_user_config example_host example_session ''gross_range_test'' = Inr qc_config
      \<and> QcConfig example_host qc_config = Inr qc
      \<and> getitem example_df ''measurement'' = Inr (Series ''measurement'' (index example_df) obs)
      \<and> getitem example_df ''time'' = Inr (Series ''time'' (index example_df) time)
      \<and> getitem example_df ''z'' = Inr (Series ''z'' (index example_df) depth)
      \<and> qc_run example_host qc (Series ''measurement'' (index example_df) obs)
            (Series ''time'' (index example_df) time) (Series ''z'' (index example_df) depth) = Inr answer
      \<and> map_of answer ''qartod'' = Some qartod
      \<and> map_of qartod ''gross_range_test'' = Some flags
      \<and> length flags = nrows example_df
      \<and> index example_result = time
      \<and> columns example_result
           = filter (\<lambda>c. fst c \<noteq> ''time'') (columns example_df) @ [(''gross_range_test'', flags)]
      \<and> ''time'' \<notin> set (labels example_result)
      \<and> wf_frame example_result \<and> nrows example_result = nrows example_df
      \<and> (ascending (index example_result) \<longleftrightarrow> ascending time))"
proof -
  have wf: "wf_frame example_df" by (simp add: wf_frame_def example_df_def)
  have dist: "distinct (labels example_df)" by (simp add: labels_def example_df_def)
  have idx: "index example_df = RangeIndex (nrows example_df)"
    by (simp add: RangeIndex_def nrows_def example_df_def)
  from run_tests_result [OF example_run_tests wf dist idx example_engine_rowwise]
  have "\<exists>obs time depth qc_config qc answer qartod flags.
        get_user_config example_host example_session ''gross_range_test'' = Inr qc_config
      \<and> QcConfig example_host qc_config = Inr qc
      \<and> getitem example_df ''measurement'' = Inr (Series ''measurement'' (index example_df) obs)
      \<and> getitem example_df ''time'' = Inr (Series ''time'' (index example_df) time)
      \<and> getitem example_df ''z'' = Inr (Series ''z'' (index example_df) depth)
      \<and> qc_run example_host qc (Series ''measurement'' (index example_df) obs)
            (Series ''time'' (index example_df) time) (Series ''z'' (index example_df) depth) = Inr answer
      \<and> map_of answer ''qartod'' = Some qartod
      \<and> map_of qartod ''gross_range_test'' = Some flags
      \<and> length flags = nrows example_df
      \<and> index example_result = time
      \<and> columns example_result
           = filter (\<lambda>c. fst c \<noteq> ''time'') (columns example_df) @ [(''gross_range_test'', flags)]
      \<and> ''time'' \<notin> set (labels example_result)
      \<and> wf_frame example_result \<and> nrows example_result = nrows example_df
      \<and> (ascending (index example_result) \<longleftrightarrow> ascending time)"
    by simp
  with example_run_tests wf dist idx example_engine_rowwise show ?thesis by blast
qed

text \<open>
  The claim as first stated has the result ordered by time ascending.  On the example,
  whose time column reads \<open>40, 10, 30, 20\<close>, the result is indexed \<open>40, 10, 30, 20\<close>.
\<close>

theorem run_tests_unsorted_counterexample:
  "run_tests example_host example_session example_df ''measurement'' ''gross_range_test'' ''time'' ''z'' False
     = Inr example_result
   \<and> getitem example_df ''time''
       = Inr (Series ''time'' (index example_df) [Num 40, Num 10, Num 30, Num 20])
   \<and> index example_result = [Num 40, Num 10, Num 30, Num 20]
   \<and> \<not> ascending (index example_result)"
  using example_run_tests
  by (simp add: example_result_def ascending_def getitem_def example_df_def)

section \<open>Properties of the download\<close>

lemma map_cell_at_upt: "length vs = n \<Longrightarrow> map (cell_at vs) [0..<n] = vs"
  by (auto simp: cell_at_def intro: nth_equalityI)

lemma parse_to_csv:
  assumes wf: "wf_frame r"
  shows "parse_csv_table (to_csv r) = \<lparr>index = RangeIndex (nrows r), columns = columns r\<rparr>"
proof -
  have col: "(labels r ! j, map (\<lambda>rw. cell_at rw j) (rows r)) = columns r ! j"
    if j: "j < length (columns r)" for j
  proof -
    from j wf have len: "length (snd (columns r ! j)) = nrows r"
      by (simp add: wf_frame_def nrows_def list_all_length)
    have "map (\<lambda>rw. cell_at rw j) (rows r) = map (cell_at (snd (columns r ! j))) [0..<nrows r]"
      using j by (simp add: rows_def row_def cell_at_def)
    also have "\<dots> = snd (columns r ! j)" by (rule map_cell_at_upt [OF len])
    finally show ?thesis using j by (simp add: labels_def prod_eq_iff)
  qed
  have "map (\<lambda>j. (labels r ! j, map (\<lambda>rw. cell_at rw j) (rows r))) [0..<length (columns r)]
        = columns r"
    by (rule nth_equalityI) (simp_all add: col)
  then show ?thesis
    by (simp add: parse_csv_table_def to_csv_def rows_def labels_def)
qed

lemma round_trip_shape:
  assumes run: "run_tests h s df variable selected_test x_var y_var use_defaults = Inr result"
    and wf: "wf_frame df"
    and dist: "distinct (labels df)"
    and default_index: "index df = RangeIndex (nrows df)"
    and engine: "rowwise_engine h"
  shows "ncols (parse_csv_table (to_csv result)) = ncols df
      \<and> nrows (parse_csv_table (to_csv result)) = nrows df
      \<and> labels (parse_csv_table (to_csv result)) = filter (\<lambda>l. l \<noteq> x_var) (labels df) @ [selected_test]
      \<and> x_var \<notin> set (labels (parse_csv_table (to_csv result)))"
proof -
  from run_tests_joined [OF run wf dist default_index engine] obtain time flags where
    *: "columns result = filter (\<lambda>c. fst c \<noteq> x_var) (columns df) @ [(selected_test, flags)]"
      "selected_test \<noteq> x_var" "wf_frame result" "nrows result = nrows df" "ncols result = ncols df"
    by blast
  have "map fst (filter (\<lambda>c. fst c \<noteq> x_var) (columns df)) = filter (\<lambda>l. l \<noteq> x_var) (map fst (columns df))"
    by (simp add: filter_map comp_def)
  with * show ?thesis
    by (simp add: parse_to_csv ncols_def nrows_def labels_def length_RangeIndex)
qed

lemma download_Inr:
  assumes "uploaded_df s = Some df"
    and "snd (download_processed_data h s) = Some (Inr csv_content)"
  shows "\<exists>qc_test variable x_var y_var result.
      document s ''xVariableSelect'' = Some x_var
    \<and> run_tests h s df variable qc_test x_var y_var False = Inr result
    \<and> csv_content = to_csv result"
proof -
  let ?r = "and_then (element_value s ''select'') (\<lambda>qc_test.
            and_then (element_value s ''variableSelect'') (\<lambda>variable.
            and_then (element_value s ''xVariableSelect'') (\<lambda>x_var.
            and_then (element_value s ''yVariableSelect'') (\<lambda>y_var.
            and_then (run_tests h s df variable qc_test x_var y_var False) (\<lambda>result.
              Inr (to_csv result))))))"
  from assms have "?r = Inr csv_content"
    by (cases ?r) (simp_all add: download_processed_data_def)
  then obtain qc_test variable x_var y_var result where
    "element_value s ''xVariableSelect'' = Inr x_var"
    "run_tests h s df variable qc_test x_var y_var False = Inr result"
    "csv_content = to_csv result"
    unfolding and_then_Inr_iff by auto
  moreover from this(1) have "document s ''xVariableSelect'' = Some x_var"
    by (auto simp: element_value_def split: option.splits)
  ultimately show ?thesis by blast
qed

text \<open>
  Claim C3 (as amended).  Under the same conditions, running the test, computing the masks,
  serialising the annotated result with \<open>to_csv(index=False)\<close> and parsing the CSV again
  yields a table with as many rows as the input and as many columns as the input: the flag
  column is added, and the time column, which \<open>run_tests\<close> moved into the index, is not
  written.  The same holds of the CSV that \<open>download_processed_data\<close> offers.
\<close>

theorem csv_round_trip_shape:
  assumes wf: "wf_frame df"
    and dist: "distinct (labels df)"
    and default_index: "index df = RangeIndex (nrows df)"
    and engine: "rowwise_engine h"
  shows "(spec_round_trip h s df variable selected_test x_var y_var use_defaults = Inr parsed \<longrightarrow>
            ncols parsed = ncols df \<and> nrows parsed = nrows df
          \<and> labels parsed = filter (\<lambda>l. l \<noteq> x_var) (labels df) @ [selected_test]
          \<and> x_var \<notin> set (labels parsed))
       \<and> (uploaded_df s = Some df \<and> snd (download_processed_data h s) = Some (Inr csv_content) \<longrightarrow>
            ncols (parse_csv_table csv_content) = ncols df
          \<and> nrows (parse_csv_table csv_content) = nrows df
          \<and> document s ''xVariableSelect'' \<notin> Some ` set (header csv_content))"
proof (intro conjI impI)
  assume "spec_round_trip h s df variable selected_test x_var y_var use_defaults = Inr parsed"
  then obtain result where
    run: "run_tests h s df variable selected_test x_var y_var use_defaults = Inr result"
    and p: "parsed = parse_csv_table (to_csv result)"
    unfolding spec_round_trip_def and_then_Inr_iff by auto
  from round_trip_shape [OF run wf dist default_index engine]
  show "ncols parsed = ncols df" "nrows parsed = nrows df"
    "labels parsed = filter (\<lambda>l. l \<noteq> x_var) (labels df) @ [selected_test]"
    "x_var \<notin> set (labels parsed)"
    unfolding p by blast+
next
  assume a: "uploaded_df s = Some df \<and> snd (download_processed_data h s) = Some (Inr csv_content)"
  with download_Inr [of s df h csv_content] obtain qc_test v x y result where
    x: "document s ''xVariableSelect'' = Some x"
    and run: "run_tests h s df v qc_test x y False = Inr result"
    and c: "csv_content = to_csv result"
    by blast
  from run_tests_joined [OF run wf dist default_index engine] obtain flags where
    cols: "columns result = filter (\<lambda>c. fst c \<noteq> x) (columns df) @ [(qc_test, flags)]"
    and ne: "qc_test \<noteq> x"
    by blast
  from round_trip_shape [OF run wf dist default_index engine]
  show "ncols (parse_csv_table csv_content) = ncols df"
    "nrows (parse_csv_table csv_content) = nrows df"
    unfolding c by blast+
  from cols ne c x show "document s ''xVariableSelect'' \<notin> Some ` set (header csv_content)"
    by (auto simp: to_csv_def labels_def)
qed

lemma example_round_trip:
  "spec_round_trip example_host example_session example_df ''measurement'' ''gross_range_test''
      ''time'' ''z'' False = Inr example_parsed"
  unfolding spec_round_trip_def example_run_tests
  by (simp add: and_then_def make_mask_def getitem_def
      masked_where_def ne_def to_numpy_def parse_csv_table_def to_csv_def rows_def row_def
      cell_at_def labels_def nrows_def RangeIndex_def example_result_def example_df_def
      example_parsed_def)

lemma example_download:
  "snd (download_processed_data example_host loaded_session) = Some (Inr (to_csv example_result))"
proof -
  have "run_tests example_host loaded_session example_df ''measurement'' ''gross_range_test'' ''time'' ''z'' False
     = Inr example_result"
    by (simp add: example_defs example_result_def loaded_session_def)
  then show ?thesis
    by (simp add: download_processed_data_def element_value_def and_then_def loaded_session_def
        example_session_def)
qed

theorem csv_round_trip_shape_witness:
  "wf_frame example_df \<and> distinct (labels example_df)
   \<and> index example_df = RangeIndex (nrows example_df)
   \<and> rowwise_engine example_host
   \<and> spec_round_trip example_host loaded_session example_df ''measurement'' ''gross_range_test''
        ''time'' ''z'' False = Inr example_parsed
   \<and> ncols example_parsed = ncols example_df \<and> nrows example_parsed = nrows example_df
   \<and> labels example_parsed = filter (\<lambda>l. l \<noteq> ''time'') (labels example_df) @ [''gross_range_test'']
   \<and> ''time'' \<notin> set (labels example_parsed)
   \<and> uploaded_df loaded_session = Some example_df
   \<and> snd (download_processed_data example_host loaded_session) = Some (Inr (to_csv example_result))
   \<and> ncols (parse_csv_table (to_csv example_result)) = ncols example_df
   \<and> nrows (parse_csv_table (to_csv example_result)) = nrows example_df
   \<and> document loaded_session ''xVariableSelect'' \<notin> Some ` set (header (to_csv example_result))"
proof -
  have wf: "wf_frame example_df" by (simp add: wf_frame_def example_df_def)
  have dist: "distinct (labels example_df)" by (simp add: labels_def example_df_def)
  have idx: "index example_df = RangeIndex (nrows example_df)"
    by (simp add: RangeIndex_def nrows_def example_df_def)
  have up: "uploaded_df loaded_session = Some example_df"
    by (simp add: loaded_session_def)
  have rt: "spec_round_trip example_host loaded_session example_df ''measurement'' ''gross_range_test''
        ''time'' ''z'' False = Inr example_parsed"
    using example_round_trip
    by (simp add: spec_round_trip_def run_tests_def get_user_config_def get_value_by_id_def
        loaded_session_def example_session_def)
  from csv_round_trip_shape [OF wf dist idx example_engine_rowwise,
      of loaded_session "''measurement''" "''gross_range_test''" "''time''" "''z''" False
        example_parsed "to_csv example_result"]
    wf dist idx example_engine_rowwise rt up example_download
  show ?thesis by simp
qed

text \<open>
  The claim as first stated has one column more than the input.  On the example the input
  has the three columns \<open>time\<close>, \<open>z\<close>, \<open>measurement\<close> and the table read back has the
  three columns \<open>z\<close>, \<open>measurement\<close>, \<open>gross_range_test\<close>.
\<close>

theorem csv_round_trip_columns_counterexample:
  "spec_round_trip example_host example_session example_df ''measurement'' ''gross_range_test''
      ''time'' ''z'' False = Inr example_parsed
   \<and> ncols example_df = 3 \<and> ncols example_parsed = 3
   \<and> ncols example_parsed \<noteq> ncols example_df + 1
   \<and> labels example_df = [''time'', ''z'', ''measurement'']
   \<and> labels example_parsed = [''z'', ''measurement'', ''gross_range_test'']"
  using example_round_trip
  by (simp add: ncols_def labels_def example_df_def example_parsed_def)


section \<open>Repeating a run\<close>

lemma get_user_config_document:
  "document s' = document s \<Longrightarrow> get_user_config h s' t = get_user_config h s t"
  by (simp add: get_user_config_def get_value_by_id_def)

lemma run_tests_config:
  "get_user_config h s' t = get_user_config h s t \<Longrightarrow>
   run_tests h s' df v t x y d = run_tests h s df v t x y d"
  by (simp add: run_tests_def)

lemma run_tests_defaults:
  "run_tests h s' df v t x y True = run_tests h s df v t x y True"
  by (simp add: run_tests_def)

text \<open>
  Claim C9.  \<open>run_tests\<close> changes nothing: it answers a value and leaves the session as it
  is.  Of the session it reads only the form fields of the selected test, so a second call
  on the same dataset, variable, test and columns, made in any session that holds the same
  form (or yields the same configuration), returns the same annotated dataset as the first;
  with the bundled configuration the session is not read at all.  The engine is a function
  of its inputs, as the model takes every library to be; the program adds no counter and no
  random seed of its own.
\<close>

theorem run_tests_repeatable:
  "(document s' = document s \<longrightarrow>
      run_tests h s' df variable selected_test x_var y_var use_defaults
        = run_tests h s df variable selected_test x_var y_var use_defaults)
   \<and> (get_user_config h s' selected_test = get_user_config h s selected_test \<longrightarrow>
      run_tests h s' df variable selected_test x_var y_var use_defaults
        = run_tests h s df variable selected_test x_var y_var use_defaults)
   \<and> run_tests h s' df variable selected_test x_var y_var True
        = run_tests h s df variable selected_test x_var y_var True"
  using get_user_config_document [of s' s h selected_test]
    run_tests_config [of h s' selected_test s df variable x_var y_var use_defaults]
    run_tests_defaults [of h s' df variable selected_test x_var y_var s]
  by simp

lemma example_run_tests_loaded:
  "run_tests example_host loaded_session example_df ''measurement'' ''gross_range_test'' ''time'' ''z'' False
     = Inr example_result"
  by (simp add: run_tests_def get_user_config_def get_value_by_id_def and_then_def external_def
  example_host_def example_session_def example_df_def example_float_def example_run_def
  getitem_def DataFrame_def concat_axis1_def set_index_def to_numpy_def RangeIndex_def
  selection_index_def selection_columns_def example_result_def loaded_session_def)

theorem run_tests_repeatable_witness:
  "document (show_message ''File successfully downloaded.'' ''success'' loaded_session)
     = document loaded_session
   \<and> show_message ''File successfully downloaded.'' ''success'' loaded_session \<noteq> loaded_session
   \<and> run_tests example_host loaded_session example_df
         ''measurement'' ''gross_range_test'' ''time'' ''z'' False = Inr example_result
   \<and> run_tests example_host (show_message ''File successfully downloaded.'' ''success'' loaded_session)
         example_df ''measurement'' ''gross_range_test'' ''time'' ''z'' False = Inr example_result"
proof -
  let ?s' = "show_message ''File successfully downloaded.'' ''success'' loaded_session"
  have d: "document ?s' = document loaded_session"
    by (simp add: show_message_def)
  have n: "?s' \<noteq> loaded_session"
  proof
    assume "?s' = loaded_session"
    then have "message ?s' = message loaded_session" by simp
    then show False by (simp add: show_message_def loaded_session_def example_session_def)
  qed
  from run_tests_repeatable [of ?s' loaded_session example_host example_df
      "''measurement''" "''gross_range_test''" "''time''" "''z''" False] d
  have "run_tests example_host ?s' example_df ''measurement'' ''gross_range_test'' ''time'' ''z'' False
     = run_tests example_host loaded_session example_df ''measurement'' ''gross_range_test'' ''time'' ''z'' False"
    by blast
  with d n example_run_tests_loaded show ?thesis by simp
qed

section \<open>Properties of the upload handler\<close>

lemma external_Inl_iff: "external r = Inl e \<longleftrightarrow> (\<exists>m. r = Inl m \<and> e = LibraryError m)"
  by (cases r) (auto simp: external_def)

lemma show_message_fields:
  "uploaded_df (show_message m a s) = uploaded_df s"
  "document (show_message m a s) = document s"
  "select_options (show_message m a s) = select_options s"
  "filename_display (show_message m a s) = filename_display s"
  "message (show_message m a s) = Some (''alert alert-'' @ a, m)"
  by (simp_all add: show_message_def)

lemma load_file_Inl_iff:
  "load_file h file = Inl e \<longleftrightarrow>
     (endswith (lower (file_name file)) ''.csv''
        \<and> (\<exists>m. read_csv h (as_text file) (detect_delimiter (as_text file)) = Inl m \<and> e = LibraryError m))
   \<or> (\<not> endswith (lower (file_name file)) ''.csv'' \<and> endswith (lower (file_name file)) ''.nc''
        \<and> (\<exists>m. open_dataset h (as_array_buffer file) = Inl m \<and> e = LibraryError m))
   \<or> (\<not> endswith (lower (file_name file)) ''.csv'' \<and> \<not> endswith (lower (file_name file)) ''.nc''
        \<and> e = ValueError ''Unsupported file type. Please upload a .csv or .nc file.'')"
  by (auto simp: load_file_def Let_def external_def and_then_def split: sum.splits)

text \<open>
  Claim C8.  When loading an uploaded file fails (the parser or the decoder raises, or the
  file type is not supported), the session's dataset handle is what it was before, the
  previous dataset or none; the selectors and the file name shown are untouched as well,
  and the failure is reported in the message area.
\<close>

theorem ingestion_failure_keeps_dataset:
  assumes "load_file h file = Inl e"
  shows "uploaded_df (handle_file_upload h s (Some file)) = uploaded_df s
     \<and> select_options (handle_file_upload h s (Some file)) = select_options s
     \<and> filename_display (handle_file_upload h s (Some file)) = filename_display s
     \<and> document (handle_file_upload h s (Some file)) = document s
     \<and> message (handle_file_upload h s (Some file))
         = Some (''alert alert-danger'', ''Failed to load file: '' @ error_text e)
     \<and> ((endswith (lower (file_name file)) ''.csv''
          \<and> (\<exists>m. read_csv h (as_text file) (detect_delimiter (as_text file)) = Inl m \<and> e = LibraryError m))
        \<or> (\<not> endswith (lower (file_name file)) ''.csv'' \<and> endswith (lower (file_name file)) ''.nc''
          \<and> (\<exists>m. open_dataset h (as_array_buffer file) = Inl m \<and> e = LibraryError m))
        \<or> (\<not> endswith (lower (file_name file)) ''.csv'' \<and> \<not> endswith (lower (file_name file)) ''.nc''
          \<and> e = ValueError ''Unsupported file type. Please upload a .csv or .nc file.''))"
proof -
  from assms have fields:
    "uploaded_df (handle_file_upload h s (Some file)) = uploaded_df s"
    "select_options (handle_file_upload h s (Some file)) = select_options s"
    "filename_display (handle_file_upload h s (Some file)) = filename_display s"
    "document (handle_file_upload h s (Some file)) = document s"
    "message (handle_file_upload h s (Some file))
         = Some (''alert alert-danger'', ''Failed to load file: '' @ error_text e)"
    by (simp_all add: handle_file_upload_def onload_def show_message_fields)
  from assms have
    "(endswith (lower (file_name file)) ''.csv''
          \<and> (\<exists>m. read_csv h (as_text file) (detect_delimiter (as_text file)) = Inl m \<and> e = LibraryError m))
        \<or> (\<not> endswith (lower (file_name file)) ''.csv'' \<and> endswith (lower (file_name file)) ''.nc''
          \<and> (\<exists>m. open_dataset h (as_array_buffer file) = Inl m \<and> e = LibraryError m))
        \<or> (\<not> endswith (lower (file_name file)) ''.csv'' \<and> \<not> endswith (lower (file_name file)) ''.nc''
          \<and> e = ValueError ''Unsupported file type. Please upload a .csv or .nc file.'')"
    by (simp only: load_file_Inl_iff)
  with fields show ?thesis by blast
qed

lemma lower_examples:
  "lower ''empty.csv'' = ''empty.csv''" "lower ''DATA.CSV'' = ''data.csv''"
  "lower ''Tide.Nc'' = ''tide.nc''" "lower ''notes.txt'' = ''notes.txt''"
  by (simp_all add: lower_def lower_char_def)

lemma endswith_examples:
  "endswith ''empty.csv'' ''.csv''" "endswith ''data.csv'' ''.csv''"
  "\<not> endswith ''tide.nc'' ''.csv''" "endswith ''tide.nc'' ''.nc''"
  "\<not> endswith ''notes.txt'' ''.csv''" "\<not> endswith ''notes.txt'' ''.nc''"
  by (simp_all add: endswith_def suffix_def)

lemma load_empty_csv: "load_file example_host empty_csv = Inl (LibraryError ''No columns to parse from file'')"
  by (simp add: load_file_def empty_csv_def lower_examples endswith_examples external_def example_host_def)

theorem ingestion_failure_keeps_dataset_witness:
  "load_file example_host empty_csv = Inl (LibraryError ''No columns to parse from file'')
   \<and> uploaded_df loaded_session = Some example_df
   \<and> uploaded_df (handle_file_upload example_host loaded_session (Some empty_csv)) = Some example_df
   \<and> message (handle_file_upload example_host loaded_session (Some empty_csv))
         = Some (''alert alert-danger'', ''Failed to load file: No columns to parse from file'')"
proof -
  have up: "uploaded_df loaded_session = Some example_df" by (simp add: loaded_session_def)
  from ingestion_failure_keeps_dataset [OF load_empty_csv, of loaded_session] load_empty_csv up
  show ?thesis by simp
qed

lemma load_file_recased:
  assumes "lower (file_name file') = lower (file_name file)"
    and "as_text file' = as_text file" and "as_array_buffer file' = as_array_buffer file"
  shows "load_file h file' = load_file h file"
  using assms by (simp add: load_file_def Let_def)

lemma table_lower:
  assumes d: "distinct U" and len: "length U = length L" and dis: "set L \<inter> set U = {}"
    and mem: "(x, y) \<in> set (zip U L)"
  shows "(case map_of (zip U L) x of Some l \<Rightarrow> l | None \<Rightarrow> x) = y
       \<and> (case map_of (zip U L) y of Some l \<Rightarrow> l | None \<Rightarrow> y) = y"
proof -
  from d len have "distinct (map fst (zip U L))" by simp
  from map_of_is_SomeI [OF this mem] have 1: "map_of (zip U L) x = Some y" .
  from mem have "y \<in> set L" by (rule set_zip_rightD)
  with dis have "y \<notin> set U" by auto
  with len have "y \<notin> fst ` set (zip U L)" by (metis map_fst_zip set_map)
  then have 2: "map_of (zip U L) y = None" by (simp add: map_of_eq_None_iff)
  from 1 2 show ?thesis by simp
qed

lemma same_letter_lower: "same_letter a b \<Longrightarrow> lower_char a = lower_char b"
proof -
  let ?U = "''ABCDEFGHIJKLMNOPQRSTUVWXYZ''" and ?L = "''abcdefghijklmnopqrstuvwxyz''"
  have d: "distinct ?U" by simp
  have len: "length ?U = length ?L" by simp
  have dis: "set ?L \<inter> set ?U = {}" by simp
  note tl = table_lower [OF d len dis]
  assume "same_letter a b"
  then consider "a = b" | "(a, b) \<in> set (zip ?U ?L)" | "(b, a) \<in> set (zip ?U ?L)"
    unfolding same_letter_def by blast
  then show ?thesis
  proof cases
    case 1
    then show ?thesis by simp
  next
    case 2
    from tl [OF 2] show ?thesis unfolding lower_char_def by (simp only:)
  next
    case 3
    from tl [OF 3] show ?thesis unfolding lower_char_def by (simp only:)
  qed
qed

lemma differ_in_case_only_lower:
  "differ_in_case_only xs ys \<Longrightarrow> lower xs = lower ys"
  unfolding differ_in_case_only_def lower_def
  by (induction rule: list_all2_induct) (simp_all add: same_letter_lower)

lemma lower_append: "lower (xs @ ys) = lower xs @ lower ys"
  by (simp add: lower_def)

lemma lower_extensions: "lower ''.csv'' = ''.csv''" "lower ''.nc'' = ''.nc''"
  by (simp_all add: lower_def lower_char_def)

lemma any_casing_csv:
  assumes "differ_in_case_only ext ''.csv''"
  shows "endswith (lower (stem @ ext)) ''.csv''"
proof -
  from differ_in_case_only_lower [OF assms] have "lower (stem @ ext) = lower stem @ ''.csv''"
    by (simp add: lower_append lower_extensions)
  then show ?thesis unfolding endswith_def by (simp only: suffix_appendI suffix_order.refl)
qed

lemma not_csv_nc: "\<not> suffix ''.csv'' (xs @ ''.nc'')"
proof
  assume "suffix ''.csv'' (xs @ ''.nc'')"
  then obtain zs where "xs @ ''.nc'' = zs @ ''.csv''" by (auto simp: suffix_def)
  then have "rev (xs @ ''.nc'') = rev (zs @ ''.csv'')" by simp
  then show False by simp
qed

lemma any_casing_nc:
  assumes "differ_in_case_only ext ''.nc''"
  shows "\<not> endswith (lower (stem @ ext)) ''.csv'' \<and> endswith (lower (stem @ ext)) ''.nc''"
proof -
  from differ_in_case_only_lower [OF assms] have "lower (stem @ ext) = lower stem @ ''.nc''"
    by (simp add: lower_append lower_extensions)
  then show ?thesis
    unfolding endswith_def using not_csv_nc [of "lower stem"]
    by (simp only: suffix_appendI suffix_order.refl simp_thms)
qed

lemma load_file_csv:
  "endswith (lower (file_name file)) ''.csv'' \<Longrightarrow>
   load_file h file = external (read_csv h (as_text file) (detect_delimiter (as_text file)))"
  by (simp add: load_file_def Let_def)

lemma load_file_nc:
  "\<not> endswith (lower (file_name file)) ''.csv'' \<Longrightarrow> endswith (lower (file_name file)) ''.nc'' \<Longrightarrow>
   load_file h file
     = and_then (external (open_dataset h (as_array_buffer file))) (\<lambda>df. Inr (dropna_all df))"
  by (simp add: load_file_def Let_def)

text \<open>
  Claim C10.  The dispatch on the file type looks at the lowered file name.  A name that
  ends in \<open>.csv\<close> in any casing (\<open>.csv\<close>, \<open>.CSV\<close>, \<open>.Csv\<close>, ...) sends the text to the
  CSV parser (with the detected delimiter); a name that ends in \<open>.nc\<close> in any casing sends
  the bytes to the NetCDF decoder and drops the rows that are missing throughout.  In
  general the first happens when the lowered name ends in \<open>.csv\<close>, the second when it does
  not and ends in \<open>.nc\<close>, and the load fails with the \<open>ValueError\<close> for an unsupported file
  type (the specification's \<open>UnsupportedFormatError\<close>) exactly when the lowered name ends in
  neither.  Two uploads whose names differ only in case are treated alike.
\<close>

theorem load_file_dispatch:
  "(file_name file = stem @ ext \<and> differ_in_case_only ext ''.csv'' \<longrightarrow>
      load_file h file = external (read_csv h (as_text file) (detect_delimiter (as_text file))))
   \<and> (file_name file = stem @ ext \<and> differ_in_case_only ext ''.nc'' \<longrightarrow>
      load_file h file
        = and_then (external (open_dataset h (as_array_buffer file))) (\<lambda>df. Inr (dropna_all df)))
   \<and> (endswith (lower (file_name file)) ''.csv'' \<longrightarrow>
      load_file h file = external (read_csv h (as_text file) (detect_delimiter (as_text file))))
   \<and> (\<not> endswith (lower (file_name file)) ''.csv'' \<and> endswith (lower (file_name file)) ''.nc'' \<longrightarrow>
      load_file h file
        = and_then (external (open_dataset h (as_array_buffer file))) (\<lambda>df. Inr (dropna_all df)))
   \<and> (load_file h file = Inl (ValueError ''Unsupported file type. Please upload a .csv or .nc file.'')
        \<longleftrightarrow> \<not> endswith (lower (file_name file)) ''.csv'' \<and> \<not> endswith (lower (file_name file)) ''.nc'')
   \<and> (differ_in_case_only (file_name file') (file_name file) \<and> as_text file' = as_text file
        \<and> as_array_buffer file' = as_array_buffer file \<longrightarrow> load_file h file' = load_file h file)
   \<and> (lower (file_name file') = lower (file_name file) \<and> as_text file' = as_text file
        \<and> as_array_buffer file' = as_array_buffer file \<longrightarrow> load_file h file' = load_file h file)
   \<and> lower ''DATA.CSV'' = ''data.csv'' \<and> endswith (lower ''DATA.CSV'') ''.csv''
   \<and> lower ''Tide.Nc'' = ''tide.nc'' \<and> endswith (lower ''Tide.Nc'') ''.nc''"
proof -
  have any_csv: "load_file h file = external (read_csv h (as_text file) (detect_delimiter (as_text file)))"
    if "file_name file = stem @ ext" "differ_in_case_only ext ''.csv''"
    using any_casing_csv [OF that(2), of stem] that(1) by (simp add: load_file_csv)
  have any_nc: "load_file h file
        = and_then (external (open_dataset h (as_array_buffer file))) (\<lambda>df. Inr (dropna_all df))"
    if "file_name file = stem @ ext" "differ_in_case_only ext ''.nc''"
    using any_casing_nc [OF that(2), of stem] that(1) by (simp add: load_file_nc)
  have csv: "load_file h file = external (read_csv h (as_text file) (detect_delimiter (as_text file)))"
    if "endswith (lower (file_name file)) ''.csv''"
    using that by (rule load_file_csv)
  have nc: "load_file h file
        = and_then (external (open_dataset h (as_array_buffer file))) (\<lambda>df. Inr (dropna_all df))"
    if "\<not> endswith (lower (file_name file)) ''.csv''" "endswith (lower (file_name file)) ''.nc''"
    using that by (rule load_file_nc)
  have other: "load_file h file = Inl (ValueError ''Unsupported file type. Please upload a .csv or .nc file.'')
        \<longleftrightarrow> \<not> endswith (lower (file_name file)) ''.csv'' \<and> \<not> endswith (lower (file_name file)) ''.nc''"
    by (simp add: load_file_Inl_iff)
  have recased: "load_file h file' = load_file h file"
    if "differ_in_case_only (file_name file') (file_name file)" "as_text file' = as_text file"
      "as_array_buffer file' = as_array_buffer file"
    using differ_in_case_only_lower [OF that(1)] that(2,3) by (rule load_file_recased)
  have ex: "lower ''DATA.CSV'' = ''data.csv''" "endswith (lower ''DATA.CSV'') ''.csv''"
    "lower ''Tide.Nc'' = ''tide.nc''" "endswith (lower ''Tide.Nc'') ''.nc''"
    by (simp_all add: lower_examples endswith_examples)
  from any_csv any_nc csv nc other recased ex load_file_recased [of file' "file" h]
  show ?thesis by blast
qed

lemma dropna_example:
  "dropna_all example_grid
     = \<lparr>index = [Num 0, Num 2],
        columns = [(''time'', [Num 1, Num 3]), (''height'', [Num 5, NaN])]\<rparr>"
  by (simp add: dropna_all_def example_grid_def nrows_def cell_at_def upt_rec [of 0] upt_rec [of 1]
      upt_rec [of 2] upt_rec [of 3])

lemma example_csv_delimiter: "detect_delimiter example_csv_text = comma"
  by (simp add: detect_delimiter_def example_csv_text_def py_str_def semicolon_def comma_def tab_def)

lemma example_read_csv:
  "external (read_csv example_host example_csv_text (detect_delimiter example_csv_text))
     = Inr example_df"
proof -
  have "example_csv_text \<noteq> []" by (simp add: example_csv_text_def py_str_def)
  then show ?thesis
    by (simp add: example_csv_delimiter external_def example_host_def)
qed

text \<open>
  The theorem at four uploads: the example CSV named \<open>a.Csv\<close> and named \<open>DATA.CSV\<close> is
  parsed into the example dataset; the NetCDF file named \<open>Tide.Nc\<close> is handed to the
  decoder, whose refusal of the truncated file is the result; \<open>notes.txt\<close> is refused as
  an unsupported type.
\<close>

theorem load_file_dispatch_witness:
  "file_name mixed_csv = ''a'' @ ''.Csv'' \<and> differ_in_case_only ''.Csv'' ''.csv''
   \<and> load_file example_host mixed_csv = Inr example_df
   \<and> endswith (lower (file_name upper_csv)) ''.csv''
   \<and> load_file example_host upper_csv = Inr example_df
   \<and> differ_in_case_only (file_name upper_csv) ''data.csv''
   \<and> load_file example_host upper_csv = load_file example_host (upper_csv\<lparr>file_name := ''data.csv''\<rparr>)
   \<and> file_name mixed_nc = ''Tide'' @ ''.Nc'' \<and> differ_in_case_only ''.Nc'' ''.nc''
   \<and> \<not> endswith (lower (file_name mixed_nc)) ''.csv'' \<and> endswith (lower (file_name mixed_nc)) ''.nc''
   \<and> load_file example_host mixed_nc
       = and_then (external (open_dataset example_host (as_array_buffer mixed_nc)))
           (\<lambda>df. Inr (dropna_all df))
   \<and> isl (load_file example_host mixed_nc)
   \<and> load_file example_host mixed_nc
       \<noteq> Inl (ValueError ''Unsupported file type. Please upload a .csv or .nc file.'')
   \<and> \<not> endswith (lower (file_name notes_txt)) ''.csv'' \<and> \<not> endswith (lower (file_name notes_txt)) ''.nc''
   \<and> load_file example_host notes_txt
       = Inl (ValueError ''Unsupported file type. Please upload a .csv or .nc file.'')"
proof -
  have m: "file_name mixed_csv = ''a'' @ ''.Csv''" "differ_in_case_only ''.Csv'' ''.csv''"
    by (simp_all add: mixed_csv_def differ_in_case_only_def same_letter_def)
  have a: "endswith (lower (file_name upper_csv)) ''.csv''"
    by (simp add: upper_csv_def lower_examples endswith_examples)
  have u: "differ_in_case_only (file_name upper_csv) ''data.csv''"
    by (simp add: upper_csv_def differ_in_case_only_def same_letter_def)
  have n: "file_name mixed_nc = ''Tide'' @ ''.Nc''" "differ_in_case_only ''.Nc'' ''.nc''"
    by (simp_all add: mixed_nc_def differ_in_case_only_def same_letter_def)
  have b: "\<not> endswith (lower (file_name mixed_nc)) ''.csv''" "endswith (lower (file_name mixed_nc)) ''.nc''"
    by (simp_all add: mixed_nc_def lower_examples endswith_examples)
  have c: "\<not> endswith (lower (file_name notes_txt)) ''.csv''" "\<not> endswith (lower (file_name notes_txt)) ''.nc''"
    by (simp_all add: notes_txt_def lower_examples endswith_examples)
  from load_file_dispatch [of mixed_csv "''a''" "''.Csv''" example_host mixed_csv] m
  have "load_file example_host mixed_csv
      = external (read_csv example_host (as_text mixed_csv) (detect_delimiter (as_text mixed_csv)))"
    by blast
  then have 1: "load_file example_host mixed_csv = Inr example_df"
    by (simp add: mixed_csv_def example_read_csv)
  from load_file_dispatch [of upper_csv "[]" "[]" example_host upper_csv] a
  have "load_file example_host upper_csv
      = external (read_csv example_host (as_text upper_csv) (detect_delimiter (as_text upper_csv)))"
    by blast
  then have 2: "load_file example_host upper_csv = Inr example_df"
    by (simp add: upper_csv_def example_read_csv)
  have "as_text upper_csv = as_text (upper_csv\<lparr>file_name := ''data.csv''\<rparr>)"
    "as_array_buffer upper_csv = as_array_buffer (upper_csv\<lparr>file_name := ''data.csv''\<rparr>)"
    "differ_in_case_only (file_name upper_csv) (file_name (upper_csv\<lparr>file_name := ''data.csv''\<rparr>))"
    using u by simp_all
  with load_file_dispatch [of "upper_csv\<lparr>file_name := ''data.csv''\<rparr>" "[]" "[]" example_host upper_csv]
  have 3: "load_file example_host upper_csv = load_file example_host (upper_csv\<lparr>file_name := ''data.csv''\<rparr>)"
    by blast
  from load_file_dispatch [of mixed_nc "''Tide''" "''.Nc''" example_host mixed_nc] n
  have 4: "load_file example_host mixed_nc
      = and_then (external (open_dataset example_host (as_array_buffer mixed_nc)))
          (\<lambda>df. Inr (dropna_all df))"
    by blast
  then have 5: "isl (load_file example_host mixed_nc)"
    "load_file example_host mixed_nc
       \<noteq> Inl (ValueError ''Unsupported file type. Please upload a .csv or .nc file.'')"
    by (simp_all add: external_def and_then_def example_host_def)
  from load_file_dispatch [of notes_txt "[]" "[]" example_host notes_txt] c
  have 6: "load_file example_host notes_txt
       = Inl (ValueError ''Unsupported file type. Please upload a .csv or .nc file.'')"
    by blast
  from m a u n b c 1 2 3 4 5 6 show ?thesis by blast
qed

end
